theory Spec2Isabelle
  imports Main "HOL-Library.Word" "HOL-Library.Multiset"
begin

unbundle bit_operations_syntax

section \<open>SQL types and values\<close>

text \<open>
  Modelled from the spec: the SQL type tags of a Value (spec section 3) and their
  categories. The declarations the engine uses (\<open>querypb.Type\<close> and the predicates of
  package \<open>sqltypes\<close>) are not among the sources; the tags below are the ones the sources
  name (\<open>sqltypes.Null\<close>, \<open>Int64\<close>, \<open>Uint64\<close>, \<open>Float64\<close>, \<open>Decimal\<close>, \<open>VarChar\<close>,
  \<open>Timestamp\<close>, \<open>Date\<close>, \<open>Time\<close>, \<open>Datetime\<close>, \<open>Enum\<close>, \<open>Set\<close>, \<open>TypeJSON\<close>, \<open>Bit\<close>,
  \<open>querypb.Type_TUPLE\<close>) together with the remaining members of each category.
  \<open>Null_type\<close> is the zero value of the type, so the empty \<open>EvalResult{}\<close> carries it.
\<close>

datatype Type =
    Null_type
  | Int8 | Uint8 | Int16 | Uint16 | Int24 | Uint24 | Int32 | Uint32 | Int64 | Uint64
  | Float32 | Float64
  | Timestamp | Date | Time | Datetime | Year
  | Decimal
  | Text | Blob | VarChar | VarBinary | Char | Binary
  | Bit | Enum | Set | Tuple | Geometry | TypeJSON | Expression

definition IsNull :: "Type \<Rightarrow> bool" where
  "IsNull t = (t = Null_type)"

definition IsSigned :: "Type \<Rightarrow> bool" where
  "IsSigned t = (t \<in> {Int8, Int16, Int24, Int32, Int64})"

definition IsUnsigned :: "Type \<Rightarrow> bool" where
  "IsUnsigned t = (t \<in> {Uint8, Uint16, Uint24, Uint32, Uint64, Year})"

definition IsIntegral :: "Type \<Rightarrow> bool" where
  "IsIntegral t = (IsSigned t \<or> IsUnsigned t)"

definition IsFloat :: "Type \<Rightarrow> bool" where
  "IsFloat t = (t \<in> {Float32, Float64})"

definition IsNumber :: "Type \<Rightarrow> bool" where
  "IsNumber t = (IsIntegral t \<or> IsFloat t \<or> t = Decimal)"

definition IsText :: "Type \<Rightarrow> bool" where
  "IsText t = (t \<in> {Text, VarChar, Char})"

definition IsBinary :: "Type \<Rightarrow> bool" where
  "IsBinary t = (t \<in> {Blob, VarBinary, Binary})"

definition IsDate :: "Type \<Rightarrow> bool" where
  "IsDate t = (t \<in> {Datetime, Date, Timestamp, Time})"

text \<open>A \<open>sqltypes.Value\<close>: a type tag and the raw bytes of the value.\<close>

record Value =
  vtyp :: Type
  val :: string

definition NULL :: Value where
  "NULL = \<lparr>vtyp = Null_type, val = []\<rparr>"

text \<open>
  A \<open>float64\<close> is represented by its IEEE-754 bit pattern, so \<open>math.Float64bits\<close> and
  \<open>math.Float64frombits\<close> are the identity. Arithmetic and comparison on floats belong
  to the language and are taken from the environment below.
\<close>

type_synonym float64 = "64 word"

text \<open>
  The engine's internal representation of a value (spec section 3, EvalResult). The
  field \<open>typ\<close> of the source is \<open>etyp\<close> here.
\<close>

record EvalResult =
  etyp :: Type
  numval :: "64 word"
  bytes :: string
  collation :: nat

definition EvalResult_zero :: EvalResult where
  "EvalResult_zero = \<lparr>etyp = Null_type, numval = 0, bytes = [], collation = 0\<rparr>"

section \<open>Errors\<close>

datatype Code = INVALID_ARGUMENT | INTERNAL | UNIMPLEMENTED

text \<open>The two failures of \<open>strconv\<close>'s number parsers.\<close>

datatype NumError = ErrSyntax | ErrRange

text \<open>
  \<open>UnsupportedComparisonError\<close> and \<open>UnsupportedCollationError\<close> are the two error types
  the file declares; \<open>DataOutOfRange\<close> is what \<open>dataOutOfRangeError\<close> builds (code
  INVALID_ARGUMENT, state DataOutOfRange; kept are the type name and the operator of its
  message); \<open>Errorf\<close> is a plain \<open>vterrors.Errorf\<close> with its code and format string;
  \<open>StrconvError\<close> is an error of \<open>strconv\<close> handed on as it is; \<open>OtherError\<close> is an error
  produced by code outside the sources; \<open>Panic\<close> is a Go panic.
\<close>

datatype error =
    UnsupportedComparisonError Type Type
  | UnsupportedCollationError nat
  | DataOutOfRange string string
  | Errorf Code string
  | StrconvError NumError
  | OtherError string
  | Panic string

section \<open>The library and the code outside the sources\<close>

text \<open>
  \<open>strconv.ParseUint(s, 10, 64)\<close> and \<open>strconv.ParseInt(s, 10, 64)\<close> of the Go library:
  decimal digits only, an optional sign for \<open>ParseInt\<close>, \<open>ErrSyntax\<close> on an empty string or
  a character that is no digit, \<open>ErrRange\<close> as soon as the value leaves the range.
\<close>

definition is_digit :: "char \<Rightarrow> bool" where
  "is_digit c = (48 \<le> (of_char c :: nat) \<and> (of_char c :: nat) \<le> 57)"

fun parse_digits :: "nat \<Rightarrow> string \<Rightarrow> NumError + nat" where
  "parse_digits n [] = Inr n"
| "parse_digits n (c # cs) =
    (if \<not> is_digit c then Inl ErrSyntax
     else if n \<ge> 1844674407370955162 then Inl ErrRange
     else (let n1 = n * 10 + (of_char c - 48) in
       if n1 > 18446744073709551615 then Inl ErrRange else parse_digits n1 cs))"

definition ParseUint :: "string \<Rightarrow> NumError + 64 word" where
  "ParseUint s =
    (if s = [] then Inl ErrSyntax
     else case parse_digits 0 s of Inl e \<Rightarrow> Inl e | Inr n \<Rightarrow> Inr (of_nat n))"

definition ParseInt :: "string \<Rightarrow> NumError + 64 word" where
  "ParseInt s =
    (case s of
       [] \<Rightarrow> Inl ErrSyntax
     | c # cs \<Rightarrow>
        (let neg = (c = CHR ''-'');
             s1 = (if c = CHR ''+'' \<or> c = CHR ''-'' then cs else s) in
         if s1 = [] then Inl ErrSyntax
         else case parse_digits 0 s1 of
             Inl ErrSyntax \<Rightarrow> Inl ErrSyntax
           | Inl ErrRange \<Rightarrow> Inl ErrRange
           | Inr un \<Rightarrow>
               if \<not> neg \<and> un \<ge> 9223372036854775808 then Inl ErrRange
               else if neg \<and> un > 9223372036854775808 then Inl ErrRange
               else Inr (if neg then - of_nat un else of_nat un)))"

text \<open>\<open>bytes.Compare\<close>: lexicographic order of two byte strings, as -1, 0 or 1.\<close>

fun bytes_Compare :: "string \<Rightarrow> string \<Rightarrow> int" where
  "bytes_Compare [] [] = 0"
| "bytes_Compare [] (y # ys) = - 1"
| "bytes_Compare (x # xs) [] = 1"
| "bytes_Compare (x # xs) (y # ys) =
    (if (of_char x :: nat) < of_char y then - 1
     else if (of_char y :: nat) < of_char x then 1
     else bytes_Compare xs ys)"

text \<open>A collation of package \<open>collations\<close>, as the engine uses it.\<close>

record Collation =
  Collate :: "string \<Rightarrow> string \<Rightarrow> bool \<Rightarrow> int"
  Hash :: "string \<Rightarrow> 64 word \<Rightarrow> 64 word"

text \<open>
  What the file uses and the sources do not hold is a parameter of the model, collected
  in one record:
  \<^item> the language's \<open>float64\<close>: \<open>+\<close>, \<open>-\<close>, \<open>*\<close>, \<open>/\<close>, \<open><\<close>, \<open>==\<close> and the conversions
    \<open>float64(int64)\<close> and \<open>float64(uint64)\<close>;
  \<^item> the library: \<open>strconv.ParseFloat(s, 64)\<close>, \<open>strings.TrimSpace\<close> and
    \<open>hack.ParseFloatPrefix(s, 64)\<close>;
  \<^item> the engine's functions of other files: \<open>compareNumeric\<close>, \<open>numericalHashCode\<close>,
    \<open>parseDate\<close> (read as \<open>time.UnixNano()\<close> of its result), \<open>newEvalResult\<close>, \<open>ToFloat64\<close>
    (which returns a float together with an error), \<open>EvalResult.toSQLValue\<close> and
    \<open>Value.ToBytes\<close>;
  \<^item> \<open>collations.Local().LookupByID\<close>.
\<close>

record env =
  fadd :: "float64 \<Rightarrow> float64 \<Rightarrow> float64"
  fsub :: "float64 \<Rightarrow> float64 \<Rightarrow> float64"
  fmul :: "float64 \<Rightarrow> float64 \<Rightarrow> float64"
  fdiv :: "float64 \<Rightarrow> float64 \<Rightarrow> float64"
  flt :: "float64 \<Rightarrow> float64 \<Rightarrow> bool"
  feq :: "float64 \<Rightarrow> float64 \<Rightarrow> bool"
  float64_of_int64 :: "64 word \<Rightarrow> float64"
  float64_of_uint64 :: "64 word \<Rightarrow> float64"
  ParseFloat :: "string \<Rightarrow> NumError + float64"
  TrimSpace :: "string \<Rightarrow> string"
  ParseFloatPrefix :: "string \<Rightarrow> error + float64"
  compareNumeric :: "EvalResult \<Rightarrow> EvalResult \<Rightarrow> error + int"
  numericalHashCode :: "EvalResult \<Rightarrow> 64 word"
  parseDate :: "EvalResult \<Rightarrow> error + 64 word"
  newEvalResult :: "Value \<Rightarrow> error + EvalResult"
  ToFloat64 :: "Value \<Rightarrow> float64 \<times> error option"
  toSQLValue :: "EvalResult \<Rightarrow> Type \<Rightarrow> Value"
  ToBytes :: "Value \<Rightarrow> error + string"
  LookupByID :: "nat \<Rightarrow> Collation option"

text \<open>The bit patterns of the float constants \<open>0\<close> and \<open>1\<close>.\<close>

definition float_zero :: float64 where
  "float_zero = 0"

definition float_one :: float64 where
  "float_one = 0x3FF0000000000000"

text \<open>\<open>collations.Unknown\<close> is the zero collation identifier.\<close>

definition collations_Unknown :: nat where
  "collations_Unknown = 0"

section \<open>Arithmetic of the evaluation engine\<close>

definition mkResult :: "Type \<Rightarrow> 64 word \<Rightarrow> EvalResult" where
  "mkResult t n = \<lparr>etyp = t, numval = n, bytes = [], collation = 0\<rparr>"

definition invalidArithmetic :: error where
  "invalidArithmetic = Errorf INTERNAL ''invalid arithmetic between: %s %s''"

definition parseStringToFloat :: "env \<Rightarrow> string \<Rightarrow> float64" where
  "parseStringToFloat E str =
    (case ParseFloatPrefix E (TrimSpace E str) of Inl e \<Rightarrow> float_zero | Inr v \<Rightarrow> v)"

definition makeNumeric :: "env \<Rightarrow> EvalResult \<Rightarrow> EvalResult" where
  "makeNumeric E v =
    (if IsNumber (etyp v) then v
     else case ParseInt (bytes v) of
         Inr ival \<Rightarrow> mkResult Int64 ival
       | Inl e \<Rightarrow>
          (case ParseFloat E (bytes v) of
             Inr fval \<Rightarrow> mkResult Float64 fval
           | Inl e' \<Rightarrow> mkResult Int64 0))"

definition makeNumericAndPrioritize :: "env \<Rightarrow> EvalResult \<Rightarrow> EvalResult \<Rightarrow> EvalResult \<times> EvalResult" where
  "makeNumericAndPrioritize E i1 i2 =
    (let v1 = makeNumeric E i1; v2 = makeNumeric E i2 in
     if etyp v1 = Int64 then
       (if etyp v2 = Uint64 \<or> etyp v2 = Float64 then (v2, v1) else (v1, v2))
     else if etyp v1 = Uint64 then
       (if etyp v2 = Float64 then (v2, v1) else (v1, v2))
     else (v1, v2))"

definition coerceToFloat :: "env \<Rightarrow> EvalResult \<Rightarrow> float64" where
  "coerceToFloat E v2 =
    (if etyp v2 = Int64 then float64_of_int64 E (numval v2)
     else if etyp v2 = Uint64 then float64_of_uint64 E (numval v2)
     else numval v2)"

definition intPlusInt :: "env \<Rightarrow> 64 word \<Rightarrow> 64 word \<Rightarrow> EvalResult" where
  "intPlusInt E v1 v2 =
    (let result = v1 + v2;
         overflow = mkResult Float64 (fadd E (float64_of_int64 E v1) (float64_of_int64 E v2)) in
     if 0 < sint v1 \<and> 0 < sint v2 \<and> sint result < 0 then overflow
     else if sint v1 < 0 \<and> sint v2 < 0 \<and> 0 < sint result then overflow
     else mkResult Int64 result)"

definition intPlusIntWithError :: "64 word \<Rightarrow> 64 word \<Rightarrow> error + EvalResult" where
  "intPlusIntWithError v1 v2 =
    (let result = v1 + v2 in
     if (sint v1 < sint result) \<noteq> (0 < sint v2) then Inl (DataOutOfRange ''BIGINT'' ''+'')
     else Inr (mkResult Int64 result))"

definition intMinusIntWithError :: "64 word \<Rightarrow> 64 word \<Rightarrow> error + EvalResult" where
  "intMinusIntWithError v1 v2 =
    (let result = v1 - v2 in
     if (sint result < sint v1) \<noteq> (0 < sint v2) then Inl (DataOutOfRange ''BIGINT'' ''-'')
     else Inr (mkResult Int64 result))"

text \<open>
  Go's \<open>/\<close> on \<open>int64\<close>: the quotient truncated towards zero, wrapped to 64 bits (so the
  most negative value divided by -1 is itself). The divisor is never 0 where it is used.
\<close>

definition int64_quo :: "64 word \<Rightarrow> 64 word \<Rightarrow> 64 word" where
  "int64_quo a b = word_of_int (sgn (sint a) * sgn (sint b) * (\<bar>sint a\<bar> div \<bar>sint b\<bar>))"

definition intTimesIntWithError :: "64 word \<Rightarrow> 64 word \<Rightarrow> error + EvalResult" where
  "intTimesIntWithError v1 v2 =
    (let result = v1 * v2 in
     if v1 \<noteq> 0 \<and> int64_quo result v1 \<noteq> v2 then Inl (DataOutOfRange ''BIGINT'' ''*'')
     else Inr (mkResult Int64 result))"

definition uintPlusUint :: "env \<Rightarrow> 64 word \<Rightarrow> 64 word \<Rightarrow> EvalResult" where
  "uintPlusUint E v1 v2 =
    (let result = v1 + v2 in
     if result < v2 then mkResult Float64 (fadd E (float64_of_uint64 E v1) (float64_of_uint64 E v2))
     else mkResult Uint64 result)"

definition uintPlusInt :: "env \<Rightarrow> 64 word \<Rightarrow> 64 word \<Rightarrow> EvalResult" where
  "uintPlusInt E v1 v2 = uintPlusUint E v1 v2"

definition uintPlusUintWithError :: "64 word \<Rightarrow> 64 word \<Rightarrow> error + EvalResult" where
  "uintPlusUintWithError v1 v2 =
    (let result = v1 + v2 in
     if result < v1 \<or> result < v2 then Inl (DataOutOfRange ''BIGINT UNSIGNED'' ''+'')
     else Inr (mkResult Uint64 result))"

definition uintMinusUintWithError :: "64 word \<Rightarrow> 64 word \<Rightarrow> error + EvalResult" where
  "uintMinusUintWithError v1 v2 =
    (let result = v1 - v2 in
     if v2 > v1 then Inl (DataOutOfRange ''BIGINT UNSIGNED'' ''-'')
     else Inr (mkResult Uint64 result))"

definition uintTimesUintWithError :: "64 word \<Rightarrow> 64 word \<Rightarrow> error + EvalResult" where
  "uintTimesUintWithError v1 v2 =
    (let result = v1 * v2 in
     if result < v2 \<or> result < v1 then Inl (DataOutOfRange ''BIGINT UNSIGNED'' ''*'')
     else Inr (mkResult Uint64 result))"

definition intMinusUintWithError :: "64 word \<Rightarrow> 64 word \<Rightarrow> error + EvalResult" where
  "intMinusUintWithError v1u v2 =
    (if sint v1u < 0 \<or> sint v1u < sint v2 then Inl (DataOutOfRange ''BIGINT UNSIGNED'' ''-'')
     else uintMinusUintWithError v1u v2)"

definition uintPlusIntWithError :: "64 word \<Rightarrow> 64 word \<Rightarrow> error + EvalResult" where
  "uintPlusIntWithError v1 v2 =
    (let result = v1 + v2 in
     if sint v2 < 0 \<and> v1 < - v2 \<or> 0 < sint v2 \<and> (result < v1 \<or> result < v2)
     then Inl (DataOutOfRange ''BIGINT UNSIGNED'' ''+'')
     else Inr (mkResult Uint64 result))"

definition uintMinusIntWithError :: "64 word \<Rightarrow> 64 word \<Rightarrow> error + EvalResult" where
  "uintMinusIntWithError v1 v2 =
    (if sint v1 < sint v2 \<and> 0 < sint v2 then Inl (DataOutOfRange ''BIGINT UNSIGNED'' ''-'')
     else if sint v2 < 0 then uintPlusIntWithError v1 (- v2)
     else uintMinusUintWithError v1 v2)"

definition uintTimesIntWithError :: "64 word \<Rightarrow> 64 word \<Rightarrow> error + EvalResult" where
  "uintTimesIntWithError v1 v2 =
    (if sint v2 < 0 \<or> sint v1 < 0 then Inl (DataOutOfRange ''BIGINT UNSIGNED'' ''*'')
     else uintTimesUintWithError v1 v2)"

definition floatPlusAny :: "env \<Rightarrow> float64 \<Rightarrow> EvalResult \<Rightarrow> EvalResult" where
  "floatPlusAny E v1 v2 = mkResult Float64 (fadd E v1 (coerceToFloat E v2))"

definition floatMinusAny :: "env \<Rightarrow> float64 \<Rightarrow> EvalResult \<Rightarrow> EvalResult" where
  "floatMinusAny E v1 v2 = mkResult Float64 (fsub E v1 (coerceToFloat E v2))"

definition floatTimesAny :: "env \<Rightarrow> float64 \<Rightarrow> EvalResult \<Rightarrow> EvalResult" where
  "floatTimesAny E v1 v2 = mkResult Float64 (fmul E v1 (coerceToFloat E v2))"

definition anyMinusFloat :: "env \<Rightarrow> EvalResult \<Rightarrow> float64 \<Rightarrow> EvalResult" where
  "anyMinusFloat E v1 v2 = mkResult Float64 (fsub E (coerceToFloat E v1) v2)"

definition floatDivideAnyWithError :: "env \<Rightarrow> float64 \<Rightarrow> EvalResult \<Rightarrow> error + EvalResult" where
  "floatDivideAnyWithError E v1 v2 =
    (let v2f = coerceToFloat E v2;
         result = fdiv E v1 v2f;
         divisorLessThanOne = flt E v2f float_one;
         resultMismatch = (\<not> feq E (fmul E v2f result) v1) in
     if divisorLessThanOne \<and> resultMismatch then Inl (DataOutOfRange ''BIGINT'' ''/'')
     else Inr (mkResult Float64 result))"

definition addNumeric :: "env \<Rightarrow> EvalResult \<Rightarrow> EvalResult \<Rightarrow> error + EvalResult" where
  "addNumeric E i1 i2 =
    (case makeNumericAndPrioritize E i1 i2 of (v1, v2) \<Rightarrow>
      if etyp v1 = Int64 then Inr (intPlusInt E (numval v1) (numval v2))
      else if etyp v1 = Uint64 then
        (if etyp v2 = Int64 then Inr (uintPlusInt E (numval v1) (numval v2))
         else if etyp v2 = Uint64 then Inr (uintPlusUint E (numval v1) (numval v2))
         else Inl (Panic ''unreachable''))
      else if etyp v1 = Float64 then Inr (floatPlusAny E (numval v1) v2)
      else Inl (Panic ''unreachable''))"

definition addNumericWithError :: "env \<Rightarrow> EvalResult \<Rightarrow> EvalResult \<Rightarrow> error + EvalResult" where
  "addNumericWithError E i1 i2 =
    (case makeNumericAndPrioritize E i1 i2 of (v1, v2) \<Rightarrow>
      if etyp v1 = Int64 then intPlusIntWithError (numval v1) (numval v2)
      else if etyp v1 = Uint64 then
        (if etyp v2 = Int64 then uintPlusIntWithError (numval v1) (numval v2)
         else if etyp v2 = Uint64 then uintPlusUintWithError (numval v1) (numval v2)
         else Inl invalidArithmetic)
      else if etyp v1 = Float64 \<or> etyp v1 = Decimal then Inr (floatPlusAny E (numval v1) v2)
      else Inl invalidArithmetic)"

definition subtractNumericWithError :: "env \<Rightarrow> EvalResult \<Rightarrow> EvalResult \<Rightarrow> error + EvalResult" where
  "subtractNumericWithError E i1 i2 =
    (let v1 = makeNumeric E i1; v2 = makeNumeric E i2 in
      if etyp v1 = Int64 then
        (if etyp v2 = Int64 then intMinusIntWithError (numval v1) (numval v2)
         else if etyp v2 = Uint64 then intMinusUintWithError (numval v1) (numval v2)
         else if etyp v2 = Float64 then Inr (anyMinusFloat E v1 (numval v2))
         else Inl invalidArithmetic)
      else if etyp v1 = Uint64 then
        (if etyp v2 = Int64 then uintMinusIntWithError (numval v1) (numval v2)
         else if etyp v2 = Uint64 then uintMinusUintWithError (numval v1) (numval v2)
         else if etyp v2 = Float64 then Inr (anyMinusFloat E v1 (numval v2))
         else Inl invalidArithmetic)
      else if etyp v1 = Float64 then Inr (floatMinusAny E (numval v1) v2)
      else Inl invalidArithmetic)"

definition multiplyNumericWithError :: "env \<Rightarrow> EvalResult \<Rightarrow> EvalResult \<Rightarrow> error + EvalResult" where
  "multiplyNumericWithError E i1 i2 =
    (case makeNumericAndPrioritize E i1 i2 of (v1, v2) \<Rightarrow>
      if etyp v1 = Int64 then intTimesIntWithError (numval v1) (numval v2)
      else if etyp v1 = Uint64 then
        (if etyp v2 = Int64 then uintTimesIntWithError (numval v1) (numval v2)
         else if etyp v2 = Uint64 then uintTimesUintWithError (numval v1) (numval v2)
         else Inl invalidArithmetic)
      else if etyp v1 = Float64 then Inr (floatTimesAny E (numval v1) v2)
      else Inl invalidArithmetic)"

definition divideNumericWithError :: "env \<Rightarrow> EvalResult \<Rightarrow> EvalResult \<Rightarrow> error + EvalResult" where
  "divideNumericWithError E i1 i2 =
    (let v1 = makeNumeric E i1; v2 = makeNumeric E i2 in
      if etyp v1 = Int64 then floatDivideAnyWithError E (float64_of_int64 E (numval v1)) v2
      else if etyp v1 = Uint64 then floatDivideAnyWithError E (float64_of_uint64 E (numval v1)) v2
      else if etyp v1 = Float64 then floatDivideAnyWithError E (numval v1) v2
      else Inl invalidArithmetic)"

text \<open>
  The public operations return a pair of a value and an error; the value is \<open>NULL\<close>
  whenever the error is set, so the pair is the sum \<open>error + Value\<close>.
\<close>

definition binaryOp ::
  "env \<Rightarrow> (env \<Rightarrow> EvalResult \<Rightarrow> EvalResult \<Rightarrow> error + EvalResult) \<Rightarrow> Value \<Rightarrow> Value \<Rightarrow> error + Value" where
  "binaryOp E f v1 v2 =
    (case newEvalResult E v1 of
       Inl e \<Rightarrow> Inl e
     | Inr lv1 \<Rightarrow>
        (case newEvalResult E v2 of
           Inl e \<Rightarrow> Inl e
         | Inr lv2 \<Rightarrow>
            (case f E lv1 lv2 of
               Inl e \<Rightarrow> Inl e
             | Inr lresult \<Rightarrow> Inr (toSQLValue E lresult (etyp lresult)))))"

definition Add :: "env \<Rightarrow> Value \<Rightarrow> Value \<Rightarrow> error + Value" where
  "Add E v1 v2 =
    (if IsNull (vtyp v1) \<or> IsNull (vtyp v2) then Inr NULL
     else binaryOp E addNumericWithError v1 v2)"

definition Subtract :: "env \<Rightarrow> Value \<Rightarrow> Value \<Rightarrow> error + Value" where
  "Subtract E v1 v2 =
    (if IsNull (vtyp v1) \<or> IsNull (vtyp v2) then Inr NULL
     else binaryOp E subtractNumericWithError v1 v2)"

definition Multiply :: "env \<Rightarrow> Value \<Rightarrow> Value \<Rightarrow> error + Value" where
  "Multiply E v1 v2 =
    (if IsNull (vtyp v1) \<or> IsNull (vtyp v2) then Inr NULL
     else binaryOp E multiplyNumericWithError v1 v2)"

definition Divide :: "env \<Rightarrow> Value \<Rightarrow> Value \<Rightarrow> error + Value" where
  "Divide E v1 v2 =
    (if IsNull (vtyp v1) \<or> IsNull (vtyp v2) then Inr NULL
     else case ToFloat64 E v2 of (lv2AsFloat, err) \<Rightarrow>
       if feq E lv2AsFloat float_zero \<or> err \<noteq> None then
         (case err of None \<Rightarrow> Inr NULL | Some e \<Rightarrow> Inl e)
       else binaryOp E divideNumericWithError v1 v2)"

text \<open>
  The errors the arithmetic of this file raises itself: \<open>DataOutOfRange\<close> and "invalid
  arithmetic"; \<open>numeric_outcome\<close> holds of a result that is a number or one of these.
\<close>

fun arithmetic_error :: "error \<Rightarrow> bool" where
  "arithmetic_error (DataOutOfRange t s) = True"
| "arithmetic_error (Errorf c m) = (Errorf c m = invalidArithmetic)"
| "arithmetic_error e = False"

fun numeric_outcome :: "error + EvalResult \<Rightarrow> bool" where
  "numeric_outcome (Inr r) = (etyp r = Int64 \<or> etyp r = Uint64 \<or> etyp r = Float64)"
| "numeric_outcome (Inl e) = arithmetic_error e"

text \<open>
  An environment for the examples \<open>6 / 3\<close> and \<open>1 / 0\<close>: any environment, set at the
  points the two examples reach to what the engine and IEEE-754 give there (the floats 0,
  2, 3 and 6 are \<open>0x0\<close>, \<open>0x4000000000000000\<close>, \<open>0x4008000000000000\<close> and
  \<open>0x4018000000000000\<close>).
\<close>

definition int64_value :: "string \<Rightarrow> Value" where
  "int64_value s = \<lparr>vtyp = Int64, val = s\<rparr>"

definition divide_example_env :: "env \<Rightarrow> env" where
  "divide_example_env E = E\<lparr>
     fdiv := (\<lambda>a b. if a = 0x4018000000000000 \<and> b = 0x4008000000000000
                     then 0x4000000000000000 else fdiv E a b),
     flt := (\<lambda>a b. if a = 0x4008000000000000 \<and> b = float_one then False else flt E a b),
     feq := (\<lambda>a b. if a = float_zero \<and> b = float_zero then True
                    else if a = 0x4008000000000000 \<and> b = float_zero then False
                    else feq E a b),
     float64_of_int64 := (\<lambda>n. if n = 6 then 0x4018000000000000
                               else if n = 3 then 0x4008000000000000
                               else float64_of_int64 E n),
     newEvalResult := (\<lambda>v. if v = int64_value ''6'' then Inr (mkResult Int64 6)
                            else if v = int64_value ''3'' then Inr (mkResult Int64 3)
                            else newEvalResult E v),
     ToFloat64 := (\<lambda>v. if v = int64_value ''0'' then (float_zero, None)
                        else if v = int64_value ''3'' then (0x4008000000000000, None)
                        else ToFloat64 E v)\<rparr>"

text \<open>
  Names for what \<open>divideNumericWithError\<close> computes from two operands: whether the
  dividend is of a type it divides, the float dividend and divisor, and the test of
  \<open>floatDivideAnyWithError\<close> (the divisor below 1 and the product of divisor and quotient
  different from the dividend).
\<close>

definition known_numeric :: "env \<Rightarrow> EvalResult \<Rightarrow> bool" where
  "known_numeric E lv1 =
    (etyp (makeNumeric E lv1) = Int64 \<or> etyp (makeNumeric E lv1) = Uint64
     \<or> etyp (makeNumeric E lv1) = Float64)"

definition float_operand :: "env \<Rightarrow> EvalResult \<Rightarrow> float64" where
  "float_operand E lv = coerceToFloat E (makeNumeric E lv)"

definition quotient_mismatch :: "env \<Rightarrow> float64 \<Rightarrow> float64 \<Rightarrow> bool" where
  "quotient_mismatch E a b = (flt E b float_one \<and> \<not> feq E (fmul E b (fdiv E a b)) a)"

section \<open>Type coercion\<close>

definition CoerceTo :: "Type \<Rightarrow> Type \<Rightarrow> error + Type" where
  "CoerceTo v1 v2 =
    (if v1 = v2 then Inr v1
     else if IsNull v1 \<or> IsNull v2 then Inr Null_type
     else if (IsText v1 \<or> IsBinary v1) \<and> (IsText v2 \<or> IsBinary v2) then Inr VarChar
     else if IsNumber v1 \<or> IsNumber v2 then
       (if IsText v1 \<or> IsBinary v1 \<or> IsText v2 \<or> IsBinary v2 then Inr Float64
        else if IsFloat v2 \<or> v2 = Decimal \<or> IsFloat v1 \<or> v1 = Decimal then Inr Float64
        else if IsSigned v1 then
          (if IsUnsigned v2 then Inr Uint64
           else if IsSigned v2 then Inr Int64
           else Inl (Errorf UNIMPLEMENTED ''types does not support hashcode yet: %v vs %v''))
        else if IsUnsigned v1 then
          (if IsSigned v2 \<or> IsUnsigned v2 then Inr Uint64
           else Inl (Errorf UNIMPLEMENTED ''types does not support hashcode yet: %v vs %v''))
        else Inl (Errorf UNIMPLEMENTED ''types does not support hashcode yet: %v vs %v''))
     else Inl (Errorf UNIMPLEMENTED ''types does not support hashcode yet: %v vs %v''))"

definition isByteComparable :: "Type \<Rightarrow> bool" where
  "isByteComparable t =
    (if IsBinary t then True
     else t \<in> {Timestamp, Date, Time, Datetime, Enum, Set, TypeJSON, Bit})"

section \<open>Comparison and hashing\<close>

definition castTo :: "env \<Rightarrow> Value \<Rightarrow> Type \<Rightarrow> error + EvalResult" where
  "castTo E v t =
    (if t = Null_type then Inr EvalResult_zero
     else if IsFloat t \<or> t = Decimal then
       (if IsSigned (vtyp v) then
          (case ParseInt (val v) of
             Inl e \<Rightarrow> Inl (Errorf INTERNAL ''%v'')
           | Inr ival \<Rightarrow> Inr (mkResult Float64 (float64_of_int64 E ival)))
        else if IsUnsigned (vtyp v) then
          (case ParseUint (val v) of
             Inl e \<Rightarrow> Inl (Errorf INTERNAL ''%v'')
           | Inr uval \<Rightarrow> Inr (mkResult Float64 (float64_of_uint64 E uval)))
        else if IsFloat (vtyp v) \<or> vtyp v = Decimal then
          (case ParseFloat E (val v) of
             Inl e \<Rightarrow> Inl (Errorf INTERNAL ''%v'')
           | Inr fval \<Rightarrow> Inr (mkResult Float64 fval))
        else if IsText (vtyp v) \<or> IsBinary (vtyp v) then
          Inr (mkResult Float64 (parseStringToFloat E (val v)))
        else Inl (Errorf INTERNAL ''coercion should not try to coerce this value to a float: %v''))
     else if IsSigned t then
       (if IsSigned (vtyp v) then
          (case ParseInt (val v) of
             Inl e \<Rightarrow> Inl (Errorf INTERNAL ''%v'')
           | Inr ival \<Rightarrow> Inr (mkResult Int64 ival))
        else if IsUnsigned (vtyp v) then
          (case ParseUint (val v) of
             Inl e \<Rightarrow> Inl (Errorf INTERNAL ''%v'')
           | Inr uval \<Rightarrow> Inr (mkResult Int64 uval))
        else Inl (Errorf INTERNAL ''coercion should not try to coerce this value to a signed int: %v''))
     else if IsUnsigned t then
       (if IsSigned (vtyp v) then
          (case ParseInt (val v) of
             Inl e \<Rightarrow> Inl (Errorf INTERNAL ''%v'')
           | Inr uval \<Rightarrow> Inr (mkResult Uint64 uval))
        else if IsUnsigned (vtyp v) then
          (case ParseUint (val v) of
             Inl e \<Rightarrow> Inl (Errorf INTERNAL ''%v'')
           | Inr uval \<Rightarrow> Inr (mkResult Uint64 uval))
        else Inl (Errorf INTERNAL ''coercion should not try to coerce this value to a unsigned int: %v''))
     else if IsText t \<or> IsBinary t then
       (if IsText (vtyp v) \<or> IsBinary (vtyp v) then
          Inr \<lparr>etyp = vtyp v, numval = 0, bytes = val v, collation = 0\<rparr>
        else Inl (Errorf INTERNAL ''coercion should not try to coerce this value to a text: %v''))
     else Inl (Errorf INTERNAL ''coercion should not try to coerce this value: %v''))"

definition collate_bytes :: "env \<Rightarrow> Collation \<Rightarrow> Value \<Rightarrow> Value \<Rightarrow> error + int" where
  "collate_bytes E coll v1 v2 =
    (case ToBytes E v1 of
       Inl err1 \<Rightarrow> Inl err1
     | Inr v1Bytes \<Rightarrow>
        (case ToBytes E v2 of
           Inl err2 \<Rightarrow> Inl err2
         | Inr v2Bytes \<Rightarrow>
            (let result = Collate coll v1Bytes v2Bytes False in
             if result < 0 then Inr (- 1) else if result > 0 then Inr 1 else Inr 0)))"

definition NullsafeCompare :: "env \<Rightarrow> Value \<Rightarrow> Value \<Rightarrow> nat \<Rightarrow> error + int" where
  "NullsafeCompare E v1 v2 collationID =
    (if IsNull (vtyp v1) then (if IsNull (vtyp v2) then Inr 0 else Inr (- 1))
     else if IsNull (vtyp v2) then Inr 1
     else if isByteComparable (vtyp v1) \<and> isByteComparable (vtyp v2) then
       (case ToBytes E v1 of
          Inl err1 \<Rightarrow> Inl err1
        | Inr v1Bytes \<Rightarrow>
           (case ToBytes E v2 of
              Inl err2 \<Rightarrow> Inl err2
            | Inr v2Bytes \<Rightarrow> Inr (bytes_Compare v1Bytes v2Bytes)))
     else
       (case CoerceTo (vtyp v1) (vtyp v2) of
          Inl err \<Rightarrow> Inl err
        | Inr t \<Rightarrow>
           (case castTo E v1 t of
              Inl err \<Rightarrow> Inl err
            | Inr v1cast \<Rightarrow>
               (case castTo E v2 t of
                  Inl err \<Rightarrow> Inl err
                | Inr v2cast \<Rightarrow>
                   if IsNumber t then compareNumeric E v1cast v2cast
                   else if IsText t \<or> IsBinary t then
                     (if collationID = collations_Unknown
                      then Inl (UnsupportedCollationError collationID)
                      else (case LookupByID E collationID of
                              None \<Rightarrow> Inl (UnsupportedCollationError collationID)
                            | Some coll \<Rightarrow> collate_bytes E coll v1 v2))
                   else Inl (UnsupportedComparisonError (vtyp v1) (vtyp v2))))))"

text \<open>\<open>HashCode\<close> is \<open>uintptr\<close>, 64 bits wide; \<open>math.MaxUint64\<close> is the word \<open>- 1\<close>.\<close>

definition nullSafeHashcode :: "env \<Rightarrow> EvalResult \<Rightarrow> error + 64 word" where
  "nullSafeHashcode E er =
    (if IsNull (etyp er) then Inr (- 1)
     else if IsNumber (etyp er) then Inr (numericalHashCode E er)
     else if IsText (etyp er) then
       (case LookupByID E (collation er) of
          None \<Rightarrow> Inl (Errorf INTERNAL
            ''text type with an unknown/unsupported collation cannot be hashed'')
        | Some coll \<Rightarrow> Inr (Hash coll (bytes er) 0))
     else if IsDate (etyp er) then
       (case parseDate E er of Inl err \<Rightarrow> Inl err | Inr t \<Rightarrow> Inr t)
     else Inl (Errorf UNIMPLEMENTED ''types does not support hashcode yet: %v''))"

definition NullsafeHashcode :: "env \<Rightarrow> Value \<Rightarrow> nat \<Rightarrow> Type \<Rightarrow> error + 64 word" where
  "NullsafeHashcode E v coll coerceType =
    (case castTo E v coerceType of
       Inl err \<Rightarrow> Inl err
     | Inr castValue \<Rightarrow> nullSafeHashcode E (castValue\<lparr>collation := coll\<rparr>))"


section \<open>The Route primitive\<close>

datatype RouteOpcode =
    SelectUnsharded | SelectEqualUnique | SelectEqual | SelectIN | SelectMultiEqual
  | SelectScatter | SelectNext | SelectDBA | SelectReference | SelectNone
  | UnknownOpcode int

text \<open>The destinations the source names (package \<open>key\<close>).\<close>

datatype Destination =
    DestinationKeyspaceID string
  | DestinationAllShards
  | DestinationAnyShard
  | DestinationNone

type_synonym ResolvedShard = string

text \<open>A \<open>querypb.BindVariable\<close>: a type, a value and, for a tuple, its values.\<close>

record BindVariable =
  bv_Type :: Type
  bv_Value :: string
  bv_Values :: "Value list"

type_synonym BindVars = "string \<rightharpoonup> BindVariable"

record BoundQuery =
  Sql :: string
  BindVariables :: BindVars

type_synonym Row = "Value list"

record Result =
  Fields :: "string list"
  Rows :: "Row list"
  RowsAffected :: nat
  InsertID :: nat

definition Result_empty :: Result where
  "Result_empty = \<lparr>Fields = [], Rows = [], RowsAffected = 0, InsertID = 0\<rparr>"

record QueryWarning =
  qw_Code :: nat
  qw_Message :: string

text \<open>
  An \<open>OrderByParams\<close> is represented by the comparer \<open>extractSlices\<close> builds from it;
  \<open>comparer.compare\<close> is outside the sources and is taken as a function of two rows.
\<close>

type_synonym comparer = "Row \<Rightarrow> Row \<Rightarrow> error + int"

record Route =
  Opcode :: RouteOpcode
  Keyspace_Name :: string
  Query :: string
  FieldQuery :: string
  Vindex_Map :: "Value list \<Rightarrow> error + Destination list"
  Value_ResolveValue :: "BindVars \<Rightarrow> error + Value"
  Value_ResolveList :: "BindVars \<Rightarrow> error + Value list"
  OrderBy :: "comparer list"
  TruncateColumnCount :: nat
  QueryTimeout :: nat
  ScatterErrorsAsWarnings :: bool

text \<open>
  The cursor is the capability the Route is given (spec section 6). Its methods, and the
  functions of other packages the Route calls, are parameters:
  \<^item> \<open>ResolveDestinations keyspace ids destinations\<close>, with \<open>ids\<close> possibly \<open>nil\<close>;
  \<^item> \<open>ExecuteMultiShard rss queries rollbackOnError autocommit\<close>, which returns a result
    (taken to be a non-nil pointer) and a slice of errors that may be \<open>nil\<close> and may hold
    \<open>nil\<close> entries;
  \<^item> \<open>AutocommitApproval\<close>;
  \<^item> \<open>paramsSystemQuery\<close>, the parameters of an information_schema query: its body rests on
    expression evaluation and the routed-table lookup, which the sources do not hold;
  \<^item> \<open>mysql.NewSQLErrorFromError(err).Num\<close> and \<open>err.Error()\<close>.
\<close>

record VCursor =
  ResolveDestinations ::
    "string \<Rightarrow> Value list option \<Rightarrow> Destination list \<Rightarrow> error + (ResolvedShard list \<times> Value list list)"
  ExecuteMultiShard ::
    "ResolvedShard list \<Rightarrow> BoundQuery list \<Rightarrow> bool \<Rightarrow> bool \<Rightarrow> Result \<times> error option list option"
  AutocommitApproval :: bool
  paramsSystemQuery :: "BindVars \<Rightarrow> error + (ResolvedShard list \<times> BindVars list)"
  SQLError_Num :: "error \<Rightarrow> nat"
  Error_string :: "error \<Rightarrow> string"

text \<open>
  What an execution changes: the warnings of the session, the process-wide counter
  \<open>PartialSuccessScatterQueries\<close>, and the deadlines installed on and released from the
  cursor's context.
\<close>

record Session =
  warnings :: "QueryWarning list"
  partialSuccessScatterQueries :: nat
  timeouts :: "nat list"
  cancelled :: nat

text \<open>
  Modelled from the spec: \<open>vterrors.Aggregate\<close> is outside the sources; an empty list gives
  no error, any other list one error that holds them all ("aggregate and surface").
\<close>

datatype route_error =
    Err error
  | Aggregated "error list"
  | Errorf_route Code string

definition Aggregate :: "error list \<Rightarrow> route_error option" where
  "Aggregate errs = (if errs = [] then None else Some (Aggregated errs))"

text \<open>
  Modelled from the spec: \<open>Result.Truncate\<close> is outside the sources; a count of 0 leaves
  the result as it is, any other count trims the fields and every row to that many
  leading columns.
\<close>

definition Truncate :: "Result \<Rightarrow> nat \<Rightarrow> Result" where
  "Truncate r l =
    (if l = 0 then r
     else r\<lparr>Fields := take l (Fields r), Rows := map (take l) (Rows r)\<rparr>)"

text \<open>
  Modelled from the spec: the name of the list bind variable of an IN route
  (\<open>ListVarName\<close>) is a constant declared outside the sources.
\<close>

definition ListVarName :: string where
  "ListVarName = ''__vals''"

definition filterOutNilErrors :: "error option list \<Rightarrow> error list" where
  "filterOutNilErrors errs = concat (map (\<lambda>e. case e of None \<Rightarrow> [] | Some x \<Rightarrow> [x]) errs)"

definition getQueries :: "string \<Rightarrow> BindVars list \<Rightarrow> BoundQuery list" where
  "getQueries query bvs = map (\<lambda>bv. \<lparr>Sql = query, BindVariables = bv\<rparr>) bvs"

definition shardVars :: "BindVars \<Rightarrow> Value list list \<Rightarrow> BindVars list" where
  "shardVars bv mapVals =
    map (\<lambda>vals. bv(ListVarName \<mapsto> \<lparr>bv_Type = Tuple, bv_Value = [], bv_Values = vals\<rparr>)) mapVals"

definition resolveShards ::
  "VCursor \<Rightarrow> Route \<Rightarrow> Value list \<Rightarrow> error + (ResolvedShard list \<times> Value list list)" where
  "resolveShards vc route vindexKeys =
    (case Vindex_Map route vindexKeys of
       Inl err \<Rightarrow> Inl err
     | Inr destinations \<Rightarrow>
         ResolveDestinations vc (Keyspace_Name route) (Some vindexKeys) destinations)"

definition replicate_binds ::
  "BindVars \<Rightarrow> error + (ResolvedShard list \<times> 'a) \<Rightarrow> error + (ResolvedShard list \<times> BindVars list)" where
  "replicate_binds bindVars r =
    (case r of
       Inl err \<Rightarrow> Inl err
     | Inr (rss, _) \<Rightarrow> Inr (rss, replicate (length rss) bindVars))"

definition paramsAnyShard ::
  "VCursor \<Rightarrow> Route \<Rightarrow> BindVars \<Rightarrow> error + (ResolvedShard list \<times> BindVars list)" where
  "paramsAnyShard vc route bindVars =
    replicate_binds bindVars
      (ResolveDestinations vc (Keyspace_Name route) None [DestinationAnyShard])"

definition paramsAllShards ::
  "VCursor \<Rightarrow> Route \<Rightarrow> BindVars \<Rightarrow> error + (ResolvedShard list \<times> BindVars list)" where
  "paramsAllShards vc route bindVars =
    replicate_binds bindVars
      (ResolveDestinations vc (Keyspace_Name route) None [DestinationAllShards])"

definition paramsSelectEqual ::
  "VCursor \<Rightarrow> Route \<Rightarrow> BindVars \<Rightarrow> error + (ResolvedShard list \<times> BindVars list)" where
  "paramsSelectEqual vc route bindVars =
    (case Value_ResolveValue route bindVars of
       Inl err \<Rightarrow> Inl err
     | Inr v \<Rightarrow> replicate_binds bindVars (resolveShards vc route [v]))"

definition paramsSelectIn ::
  "VCursor \<Rightarrow> Route \<Rightarrow> BindVars \<Rightarrow> error + (ResolvedShard list \<times> BindVars list)" where
  "paramsSelectIn vc route bindVars =
    (case Value_ResolveList route bindVars of
       Inl err \<Rightarrow> Inl err
     | Inr v \<Rightarrow>
        (case resolveShards vc route v of
           Inl err \<Rightarrow> Inl err
         | Inr (rss, vals) \<Rightarrow> Inr (rss, shardVars bindVars vals)))"

definition paramsSelectMultiEqual ::
  "VCursor \<Rightarrow> Route \<Rightarrow> BindVars \<Rightarrow> error + (ResolvedShard list \<times> BindVars list)" where
  "paramsSelectMultiEqual vc route bindVars =
    (case Value_ResolveList route bindVars of
       Inl err \<Rightarrow> Inl err
     | Inr v \<Rightarrow> replicate_binds bindVars (resolveShards vc route v))"

subsection \<open>Sorting\<close>

text \<open>
  The closure handed to \<open>sort.Slice\<close>: it reads the rows at two indices, and reads and
  writes the variable \<open>err\<close> of \<open>sort\<close>. \<open>less_loop\<close> is its loop over the comparers.
\<close>

fun less_loop :: "comparer list \<Rightarrow> Row \<Rightarrow> Row \<Rightarrow> bool \<times> error option" where
  "less_loop [] r1 r2 = (True, None)"
| "less_loop (c # cs) r1 r2 =
    (case c r1 r2 of
       Inl e \<Rightarrow> (True, Some e)
     | Inr cmp \<Rightarrow> if cmp = 0 then less_loop cs r1 r2 else (cmp < 0, None))"

definition less_closure ::
  "comparer list \<Rightarrow> Row list \<times> error option \<Rightarrow> nat \<Rightarrow> nat \<Rightarrow> bool \<times> error option" where
  "less_closure comparers st i j =
    (case st of (rows, err) \<Rightarrow>
      if err \<noteq> None then (True, err) else less_loop comparers (rows ! i) (rows ! j))"

definition swap :: "'a list \<Rightarrow> nat \<Rightarrow> nat \<Rightarrow> 'a list" where
  "swap xs i j = xs[i := xs ! j, j := xs ! i]"

text \<open>
  \<open>sort.Slice\<close> of the Go library, for a short slice. The library sorts a slice of at most
  12 elements (at most 6 before Go 1.19) by \<open>insertionSort_func\<close> alone:
  \<^verbatim>\<open>for i := a + 1; i < b; i++ {
    for j := i; j > a && data.Less(j, j-1); j-- { data.Swap(j, j-1) } }\<close>
  with \<open>a = 0\<close> and \<open>b\<close> the length. \<open>insert_down\<close> is the inner loop from index \<open>j\<close>.
  Longer slices take the library's quicksort, which is not modelled; the properties below
  that rest on \<open>sort_Slice\<close> are stated for short slices.
\<close>

fun insert_down ::
  "comparer list \<Rightarrow> Row list \<times> error option \<Rightarrow> nat \<Rightarrow> Row list \<times> error option" where
  "insert_down comparers st 0 = st"
| "insert_down comparers st (Suc j) =
    (case less_closure comparers st (Suc j) j of
       (b, err') \<Rightarrow>
         if b then insert_down comparers (swap (fst st) (Suc j) j, err') j
         else (fst st, err'))"

definition sort_Slice ::
  "comparer list \<Rightarrow> Row list \<times> error option \<Rightarrow> Row list \<times> error option" where
  "sort_Slice comparers st =
    fold (\<lambda>i st'. insert_down comparers st' i) [1 ..< length (fst st)] st"

definition sort_rows :: "Route \<Rightarrow> Result \<Rightarrow> Result \<times> error option" where
  "sort_rows route inp =
    (case sort_Slice (OrderBy route) (Rows inp, None) of
       (rows, err) \<Rightarrow>
         (\<lparr>Fields = Fields inp, Rows = rows, RowsAffected = RowsAffected inp,
           InsertID = InsertID inp\<rparr>, err))"

subsection \<open>Execution\<close>

text \<open>
  A call returns Go's pair of a result pointer and an error: \<open>None\<close> is \<open>nil\<close>. In
  \<open>execShard\<close> the errors of the one shard are aggregated as they come; the entries the
  cursor left \<open>nil\<close> are dropped first, an aggregate of absent errors being no error.
\<close>

definition execShard ::
  "VCursor \<Rightarrow> string \<Rightarrow> BindVars \<Rightarrow> ResolvedShard \<Rightarrow> bool \<Rightarrow> bool \<Rightarrow> Result \<times> route_error option" where
  "execShard vc query bindVars rs rollbackOnError canAutocommit =
    (case ExecuteMultiShard vc [rs] [\<lparr>Sql = query, BindVariables = bindVars\<rparr>] rollbackOnError
            (canAutocommit \<and> AutocommitApproval vc) of
       (result, errs) \<Rightarrow>
         (result, Aggregate (filterOutNilErrors (case errs of None \<Rightarrow> [] | Some es \<Rightarrow> es))))"

definition GetFields :: "VCursor \<Rightarrow> Route \<Rightarrow> BindVars \<Rightarrow> Result option \<times> route_error option" where
  "GetFields vc route bindVars =
    (case ResolveDestinations vc (Keyspace_Name route) None [DestinationAnyShard] of
       Inl err \<Rightarrow> (None, Some (Err err))
     | Inr (rss, _) \<Rightarrow>
         if length rss \<noteq> 1 then (None, Some (Errorf_route INTERNAL ''no shards for keyspace: %s''))
         else (case execShard vc (FieldQuery route) bindVars (rss ! 0) False False of
                 (qr, Some err) \<Rightarrow> (None, Some err)
               | (qr, None) \<Rightarrow> (Some (Truncate qr (TruncateColumnCount route)), None)))"

definition route_params ::
  "VCursor \<Rightarrow> Route \<Rightarrow> BindVars \<Rightarrow> route_error + (ResolvedShard list \<times> BindVars list)" where
  "route_params vc route bindVars =
    (let lift = (\<lambda>r. case r of Inl e \<Rightarrow> Inl (Err e) | Inr x \<Rightarrow> Inr x) in
     case Opcode route of
       SelectDBA \<Rightarrow> lift (paramsSystemQuery vc bindVars)
     | SelectUnsharded \<Rightarrow> lift (paramsAnyShard vc route bindVars)
     | SelectNext \<Rightarrow> lift (paramsAnyShard vc route bindVars)
     | SelectReference \<Rightarrow> lift (paramsAnyShard vc route bindVars)
     | SelectScatter \<Rightarrow> lift (paramsAllShards vc route bindVars)
     | SelectEqual \<Rightarrow> lift (paramsSelectEqual vc route bindVars)
     | SelectEqualUnique \<Rightarrow> lift (paramsSelectEqual vc route bindVars)
     | SelectIN \<Rightarrow> lift (paramsSelectIn vc route bindVars)
     | SelectMultiEqual \<Rightarrow> lift (paramsSelectMultiEqual vc route bindVars)
     | SelectNone \<Rightarrow> Inr ([], [])
     | UnknownOpcode n \<Rightarrow> Inl (Errorf_route INTERNAL ''unsupported query route: %v''))"

definition RecordWarning :: "VCursor \<Rightarrow> Session \<Rightarrow> error \<Rightarrow> Session" where
  "RecordWarning vc s err =
    s\<lparr>warnings := warnings s @ [\<lparr>qw_Code = SQLError_Num vc err, qw_Message = Error_string vc err\<rparr>]\<rparr>"

definition executeInternal ::
  "VCursor \<Rightarrow> Route \<Rightarrow> BindVars \<Rightarrow> bool \<Rightarrow> Session \<Rightarrow> (Result option \<times> route_error option) \<times> Session" where
  "executeInternal vc route bindVars wantfields s =
    (case route_params vc route bindVars of
       Inl err \<Rightarrow> ((None, Some err), s)
     | Inr (rss, bvs) \<Rightarrow>
         if length rss = 0 then
           (if wantfields then (GetFields vc route bindVars, s)
            else ((Some Result_empty, None), s))
         else
           (case ExecuteMultiShard vc rss (getQueries (Query route) bvs) False False of
              (result, errs0) \<Rightarrow>
                (let finish = (\<lambda>s'. if length (OrderBy route) = 0 then ((Some result, None), s')
                                     else (case sort_rows route result of
                                             (out, None) \<Rightarrow> ((Some out, None), s')
                                           | (out, Some e) \<Rightarrow> ((Some out, Some (Err e)), s'))) in
                 case errs0 of
                   None \<Rightarrow> finish s
                 | Some es \<Rightarrow>
                     (let errs = filterOutNilErrors es in
                      if \<not> ScatterErrorsAsWarnings route \<or> length errs = length rss
                      then ((None, Aggregate errs), s)
                      else finish (fold (\<lambda>err s'. RecordWarning vc s' err) errs
                             (s\<lparr>partialSuccessScatterQueries := partialSuccessScatterQueries s + 1\<rparr>))))))"

definition TryExecute ::
  "VCursor \<Rightarrow> Route \<Rightarrow> BindVars \<Rightarrow> bool \<Rightarrow> Session \<Rightarrow> (Result option \<times> route_error option) \<times> Session" where
  "TryExecute vc route bindVars wantfields s =
    (let s1 = (if QueryTimeout route \<noteq> 0 then s\<lparr>timeouts := timeouts s @ [QueryTimeout route]\<rparr> else s);
         release = (\<lambda>s'. if QueryTimeout route \<noteq> 0 then s'\<lparr>cancelled := cancelled s' + 1\<rparr> else s') in
     case executeInternal vc route bindVars wantfields s1 of
       ((qr, Some err), s2) \<Rightarrow> ((None, Some err), release s2)
     | ((qr, None), s2) \<Rightarrow>
         ((map_option (\<lambda>r. Truncate r (TruncateColumnCount route)) qr, None), release s2))"

subsection \<open>Destination resolution\<close>

text \<open>
  Modelled from the spec: the resolver behind \<open>ResolveDestinations\<close> is outside the
  sources. Spec section 4.2: "given per-key shard destinations, group keys by resolved
  shard"; section 6: a destination is a keyspace id, all shards, any shard or none. A
  keyspace is given by its shards and by the shard that holds each keyspace id. Shards
  are listed in the order in which the destinations reach them.
\<close>

record KeyspaceShards =
  allShards :: "ResolvedShard list"
  shardOf :: "string \<Rightarrow> ResolvedShard"

definition resolve_destination :: "KeyspaceShards \<Rightarrow> Destination \<Rightarrow> ResolvedShard list" where
  "resolve_destination ks d =
    (case d of
       DestinationKeyspaceID k \<Rightarrow> [shardOf ks k]
     | DestinationAllShards \<Rightarrow> allShards ks
     | DestinationAnyShard \<Rightarrow> take 1 (allShards ks)
     | DestinationNone \<Rightarrow> [])"

fun add_to_shard ::
  "ResolvedShard \<Rightarrow> 'a option \<Rightarrow> (ResolvedShard \<times> 'a list) list \<Rightarrow> (ResolvedShard \<times> 'a list) list" where
  "add_to_shard s v [] = [(s, case v of None \<Rightarrow> [] | Some x \<Rightarrow> [x])]"
| "add_to_shard s v ((s', vs) # g) =
    (if s = s' then (s', vs @ (case v of None \<Rightarrow> [] | Some x \<Rightarrow> [x])) # g
     else (s', vs) # add_to_shard s v g)"

definition group_by_shard ::
  "KeyspaceShards \<Rightarrow> ('a option \<times> Destination) list \<Rightarrow> (ResolvedShard \<times> 'a list) list" where
  "group_by_shard ks pairs =
    fold (\<lambda>(v, d) g. fold (\<lambda>sh g'. add_to_shard sh v g') (resolve_destination ks d) g) pairs []"

definition ResolveDestinations_spec ::
  "KeyspaceShards \<Rightarrow> string \<Rightarrow> Value list option \<Rightarrow> Destination list \<Rightarrow> error + (ResolvedShard list \<times> Value list list)" where
  "ResolveDestinations_spec ks keyspace ids destinations =
    (let pairs = (case ids of
                    None \<Rightarrow> map (\<lambda>d. (None, d)) destinations
                  | Some vs \<Rightarrow> zip (map Some vs) destinations);
         g = group_by_shard ks pairs in
     Inr (map fst g, case ids of None \<Rightarrow> [] | Some vs \<Rightarrow> map snd g))"

subsection \<open>An example execution\<close>

text \<open>
  A scatter route over two shards \<open>s1\<close> and \<open>s2\<close>, with the given comparers and
  \<open>ScatterErrorsAsWarnings\<close> flag, and a cursor whose \<open>ExecuteMultiShard\<close> answers with the
  given result and errors. The members the scatter does not reach are filled with errors.
\<close>

definition example_route :: "comparer list \<Rightarrow> bool \<Rightarrow> Route" where
  "example_route cs seaw =
    \<lparr>Opcode = SelectScatter, Keyspace_Name = ''ks'',
     Query = ''select c from t order by c'', FieldQuery = ''select c from t where 1 != 1'',
     Vindex_Map = (\<lambda>keys. Inl (OtherError ''no vindex'')),
     Value_ResolveValue = (\<lambda>bv. Inl (OtherError ''no value'')),
     Value_ResolveList = (\<lambda>bv. Inl (OtherError ''no value'')),
     OrderBy = cs, TruncateColumnCount = 0, QueryTimeout = 0,
     ScatterErrorsAsWarnings = seaw\<rparr>"

definition example_vcursor :: "Result \<Rightarrow> error option list option \<Rightarrow> VCursor" where
  "example_vcursor res errs =
    \<lparr>ResolveDestinations = (\<lambda>keyspace ids ds. Inr ([''s1'', ''s2''], [])),
     ExecuteMultiShard = (\<lambda>rss queries rollbackOnError autocommit. (res, errs)),
     AutocommitApproval = False,
     paramsSystemQuery = (\<lambda>bv. Inl (OtherError ''no system query'')),
     SQLError_Num = (\<lambda>e. 1105),
     Error_string = (\<lambda>e. ''shard error'')\<rparr>"

definition example_session :: Session where
  "example_session = \<lparr>warnings = [], partialSuccessScatterQueries = 0, timeouts = [], cancelled = 0\<rparr>"

definition example_result :: Result where
  "example_result =
    \<lparr>Fields = [''c'', ''d''],
     Rows = [[int64_value ''1'', int64_value ''10''], [int64_value ''1'', int64_value ''20'']],
     RowsAffected = 0, InsertID = 0\<rparr>"

text \<open>A comparer that fails, and one that compares the bytes of the first column.\<close>

definition failing_comparer :: comparer where
  "failing_comparer r1 r2 = Inl (UnsupportedCollationError 0)"


definition warning_of :: "VCursor \<Rightarrow> error \<Rightarrow> QueryWarning" where
  "warning_of vc err = \<lparr>qw_Code = SQLError_Num vc err, qw_Message = Error_string vc err\<rparr>"


subsection \<open>An example IN route\<close>

text \<open>
  The tuple bind variable of a shard; a keyspace of two shards, \<open>s1\<close> holding the keyspace
  id \<open>a\<close> and \<open>s2\<close> every other one; an IN route over the keys 1, 2, 3 whose vindex answers
  with the given destinations; and a cursor that resolves destinations as the spec says.
\<close>

definition tuple_bind :: "Value list \<Rightarrow> BindVariable" where
  "tuple_bind vals = \<lparr>bv_Type = Tuple, bv_Value = [], bv_Values = vals\<rparr>"

definition example_keyspace :: KeyspaceShards where
  "example_keyspace =
    \<lparr>allShards = [''s1'', ''s2''], shardOf = (\<lambda>k. if k = ''a'' then ''s1'' else ''s2'')\<rparr>"

definition example_in_route :: "Destination list \<Rightarrow> Route" where
  "example_in_route dests =
    \<lparr>Opcode = SelectIN, Keyspace_Name = ''ks'',
     Query = ''select c from t where id in ::__vals'',
     FieldQuery = ''select c from t where 1 != 1'',
     Vindex_Map = (\<lambda>keys. Inr dests),
     Value_ResolveValue = (\<lambda>bv. Inl (OtherError ''not a scalar'')),
     Value_ResolveList = (\<lambda>bv. Inr [int64_value ''1'', int64_value ''2'', int64_value ''3'']),
     OrderBy = [], TruncateColumnCount = 0, QueryTimeout = 0,
     ScatterErrorsAsWarnings = False\<rparr>"

definition example_in_vcursor :: VCursor where
  "example_in_vcursor =
    \<lparr>ResolveDestinations = ResolveDestinations_spec example_keyspace,
     ExecuteMultiShard = (\<lambda>rss queries rollbackOnError autocommit. (Result_empty, None)),
     AutocommitApproval = False,
     paramsSystemQuery = (\<lambda>bv. Inl (OtherError ''no system query'')),
     SQLError_Num = (\<lambda>e. 1105),
     Error_string = (\<lambda>e. ''shard error'')\<rparr>"

text \<open>
  What grouping keeps while it runs over the pairs \<open>ps\<close> of a key and its destination:
  every key in the tuple of a shard is the key of a pair whose destination resolves to
  that shard.
\<close>

definition keys_mapped ::
  "KeyspaceShards \<Rightarrow> ('a option \<times> Destination) list \<Rightarrow> (ResolvedShard \<times> 'a list) list \<Rightarrow> bool" where
  "keys_mapped ks ps g =
    (\<forall>(s, vs)\<in>set g. \<forall>v\<in>set vs.
       \<exists>d. (Some v, d) \<in> set ps \<and> s \<in> set (resolve_destination ks d))"

section \<open>Properties\<close>


subsection \<open>Null-safe comparison\<close>

text \<open>
  C6. \<open>NullsafeCompare\<close> treats NULL as the strict minimum: against any value that is not
  NULL, a NULL on the left gives -1 and a NULL on the right gives 1; two NULLs give 0;
  no error in either case, whatever the collation and the environment.
\<close>

theorem NullsafeCompare_null_least:
  assumes "IsNull (vtyp n)" and "IsNull (vtyp n')" and "\<not> IsNull (vtyp v)"
  shows "NullsafeCompare E n v c = Inr (- 1) \<and> NullsafeCompare E v n c = Inr 1
    \<and> NullsafeCompare E n n' c = Inr 0"
  using assms by (simp add: NullsafeCompare_def)

theorem NullsafeCompare_null_least_witness:
  "IsNull (vtyp NULL) \<and> \<not> IsNull (vtyp \<lparr>vtyp = Int64, val = ''0''\<rparr>)
   \<and> (\<forall>E c. NullsafeCompare E NULL \<lparr>vtyp = Int64, val = ''0''\<rparr> c = Inr (- 1)
       \<and> NullsafeCompare E \<lparr>vtyp = Int64, val = ''0''\<rparr> NULL c = Inr 1
       \<and> NullsafeCompare E NULL NULL c = Inr 0)"
proof -
  have n: "IsNull (vtyp NULL)" by (simp add: NULL_def IsNull_def)
  have v: "\<not> IsNull (vtyp \<lparr>vtyp = Int64, val = ''0''\<rparr>)" by (simp add: IsNull_def)
  show ?thesis using n v NullsafeCompare_null_least [OF n n v] by simp
qed

subsection \<open>The promotion ladder\<close>

lemma signed_not_unsigned: "IsSigned t \<Longrightarrow> \<not> IsUnsigned t"
  by (auto simp: IsSigned_def IsUnsigned_def)

text \<open>
  C8 (as amended). \<open>CoerceTo\<close> follows the promotion ladder, read top to bottom: equal
  types are returned unchanged; a NULL side gives Null; two textual or binary sides give
  VarChar; with a numeric side, a textual or binary side gives Float64, a float or decimal
  side gives Float64, signed against unsigned in either order gives Uint64, two signed give
  Int64, two unsigned give Uint64; every remaining pair fails, with a plain error of code
  UNIMPLEMENTED and not with an \<open>UnsupportedComparisonError\<close>.
\<close>

theorem CoerceTo_ladder:
  "CoerceTo t1 t2 =
   (if t1 = t2 then Inr t1
    else if IsNull t1 \<or> IsNull t2 then Inr Null_type
    else if (IsText t1 \<or> IsBinary t1) \<and> (IsText t2 \<or> IsBinary t2) then Inr VarChar
    else if (IsNumber t1 \<or> IsNumber t2)
            \<and> (IsText t1 \<or> IsBinary t1 \<or> IsText t2 \<or> IsBinary t2) then Inr Float64
    else if (IsNumber t1 \<or> IsNumber t2)
            \<and> (IsFloat t1 \<or> t1 = Decimal \<or> IsFloat t2 \<or> t2 = Decimal) then Inr Float64
    else if IsSigned t1 \<and> IsUnsigned t2 \<or> IsUnsigned t1 \<and> IsSigned t2 then Inr Uint64
    else if IsSigned t1 \<and> IsSigned t2 then Inr Int64
    else if IsUnsigned t1 \<and> IsUnsigned t2 then Inr Uint64
    else Inl (Errorf UNIMPLEMENTED ''types does not support hashcode yet: %v vs %v''))"
  by (auto simp: CoerceTo_def IsNumber_def IsIntegral_def dest: signed_not_unsigned)

theorem CoerceTo_ladder_witness:
  "CoerceTo Int8 Uint16 = Inr Uint64 \<and> CoerceTo Uint16 Int8 = Inr Uint64
   \<and> CoerceTo Int8 Int32 = Inr Int64 \<and> CoerceTo Uint8 Year = Inr Uint64
   \<and> CoerceTo VarChar Blob = Inr VarChar \<and> CoerceTo Int64 VarChar = Inr Float64
   \<and> CoerceTo Date Float32 = Inr Float64 \<and> CoerceTo Tuple Null_type = Inr Null_type
   \<and> CoerceTo Int64 Date
       = Inl (Errorf UNIMPLEMENTED ''types does not support hashcode yet: %v vs %v'')"
  using CoerceTo_ladder [of Int8 Uint16] CoerceTo_ladder [of Uint16 Int8]
    CoerceTo_ladder [of Int8 Int32] CoerceTo_ladder [of Uint8 Year]
    CoerceTo_ladder [of VarChar Blob] CoerceTo_ladder [of Int64 VarChar]
    CoerceTo_ladder [of Date Float32] CoerceTo_ladder [of Tuple Null_type]
    CoerceTo_ladder [of Int64 Date]
  by (simp add: IsNull_def IsText_def IsBinary_def IsNumber_def IsIntegral_def IsSigned_def
      IsUnsigned_def IsFloat_def)

text \<open>
  The claim as stated fails on the kind of the error: a signed integer against a date is a
  remaining pair, and the error it gets is not the \<open>UnsupportedComparisonError\<close> of the two
  types.
\<close>

theorem CoerceTo_error_kind_counterexample:
  "CoerceTo Int64 Date
     = Inl (Errorf UNIMPLEMENTED ''types does not support hashcode yet: %v vs %v'')
   \<and> CoerceTo Int64 Date \<noteq> Inl (UnsupportedComparisonError Int64 Date)"
  by (simp add: CoerceTo_def IsNull_def IsText_def IsBinary_def IsNumber_def IsIntegral_def
      IsSigned_def IsUnsigned_def IsFloat_def)


subsection \<open>Checked integer arithmetic\<close>

lemma sint_neg_iff_large: "(sint (v :: 64 word) < 0) = (2 ^ 63 \<le> unat v)"
proof -
  have lt: "unat v < 2 ^ 64" using unsigned_less [of v, where ?'a = nat] by simp
  have "(sint v < 0) = bit v (LENGTH(64) - Suc 0)" by (simp only: bit_last_iff)
  also have "\<dots> = bit (unat v) 63" by (simp add: bit_unsigned_iff)
  also have "\<dots> = odd (unat v div 2 ^ 63)" by (simp add: bit_iff_odd)
  also have "\<dots> = (2 ^ 63 \<le> unat v)"
  proof (cases "2 ^ 63 \<le> unat v")
    case True
    then have "unat v div 2 ^ 63 = 1" using lt by (simp add: div_nat_eqI)
    with True show ?thesis by simp
  next
    case False
    then have "unat v div 2 ^ 63 = 0" by simp
    with False show ?thesis by simp
  qed
  finally show ?thesis .
qed

lemma sint_add64:
  fixes v1 v2 :: "64 word"
  shows "sint (v1 + v2) = signed_take_bit 63 (sint v1 + sint v2)"
  by (simp add: sint_word_ariths)

lemma intPlusIntWithError_correct:
  "intPlusIntWithError v1 v2 =
    (if - (2 ^ 63) \<le> sint v1 + sint v2 \<and> sint v1 + sint v2 < 2 ^ 63
     then Inr (mkResult Int64 (v1 + v2))
     else Inl (DataOutOfRange ''BIGINT'' ''+''))"
proof -
  let ?s = "sint v1 + sint v2"
  have r1: "- (2 ^ 63) \<le> sint v1" "sint v1 < 2 ^ 63" "- (2 ^ 63) \<le> sint v2" "sint v2 < 2 ^ 63"
    using sint_ge [of v1] sint_lt [of v1] sint_ge [of v2] sint_lt [of v2] by simp_all
  consider (ok) "- (2 ^ 63) \<le> ?s" "?s < 2 ^ 63" | (hi) "2 ^ 63 \<le> ?s" | (lo) "?s < - (2 ^ 63)"
    by linarith
  then show ?thesis
  proof cases
    case ok
    then have "signed_take_bit 63 ?s = ?s"
      by (simp add: signed_take_bit_int_eq_self_iff)
    then have "sint (v1 + v2) = ?s" by (simp add: sint_add64)
    with ok show ?thesis by (auto simp: intPlusIntWithError_def)
  next
    case hi
    have "signed_take_bit 63 ?s \<le> ?s - 2 ^ Suc 63"
      using hi by (intro signed_take_bit_int_less_eq) simp
    then have "sint (v1 + v2) \<le> ?s - 2 ^ 64" by (simp add: sint_add64)
    with hi r1 show ?thesis by (auto simp: intPlusIntWithError_def)
  next
    case lo
    have "?s + 2 ^ Suc 63 \<le> signed_take_bit 63 ?s"
      using lo by (intro signed_take_bit_int_greater_eq) simp
    then have "?s + 2 ^ 64 \<le> sint (v1 + v2)" by (simp add: sint_add64)
    with lo r1 show ?thesis by (auto simp: intPlusIntWithError_def)
  qed
qed

lemma intPlusInt_correct:
  assumes "sint v1 + sint v2 \<noteq> - (2 ^ 64)"
  shows "intPlusInt E v1 v2 =
    (if - (2 ^ 63) \<le> sint v1 + sint v2 \<and> sint v1 + sint v2 < 2 ^ 63
     then mkResult Int64 (v1 + v2)
     else mkResult Float64 (fadd E (float64_of_int64 E v1) (float64_of_int64 E v2)))"
proof -
  let ?s = "sint v1 + sint v2"
  have r1: "- (2 ^ 63) \<le> sint v1" "sint v1 < 2 ^ 63" "- (2 ^ 63) \<le> sint v2" "sint v2 < 2 ^ 63"
    using sint_ge [of v1] sint_lt [of v1] sint_ge [of v2] sint_lt [of v2] by simp_all
  consider (ok) "- (2 ^ 63) \<le> ?s" "?s < 2 ^ 63" | (hi) "2 ^ 63 \<le> ?s" | (lo) "?s < - (2 ^ 63)"
    by linarith
  then show ?thesis
  proof cases
    case ok
    then have "signed_take_bit 63 ?s = ?s"
      by (simp add: signed_take_bit_int_eq_self_iff)
    then have "sint (v1 + v2) = ?s" by (simp add: sint_add64)
    with ok show ?thesis by (auto simp: intPlusInt_def Let_def)
  next
    case hi
    have "signed_take_bit 63 ?s \<le> ?s - 2 ^ Suc 63"
      using hi by (intro signed_take_bit_int_less_eq) simp
    then have "sint (v1 + v2) \<le> ?s - 2 ^ 64" by (simp add: sint_add64)
    with hi r1 show ?thesis by (auto simp: intPlusInt_def Let_def)
  next
    case lo
    have "?s + 2 ^ Suc 63 \<le> signed_take_bit 63 ?s"
      using lo by (intro signed_take_bit_int_greater_eq) simp
    then have "?s + 2 ^ 64 \<le> sint (v1 + v2)" by (simp add: sint_add64)
    with lo r1 assms show ?thesis by (auto simp: intPlusInt_def Let_def)
  qed
qed

text \<open>
  C5. The error-returning addition rejects every overflowing pair (lemma
  \<open>intPlusIntWithError_correct\<close>), and both variants agree on the pairs that do not
  overflow. The variant without error promotes an overflowing sum to Float64 for every
  pair but one (lemma \<open>intPlusInt_correct\<close>): the most negative value added to itself
  wraps to 0, the test \<open>result > 0\<close> misses it, and the sum comes back as Int64 0.
\<close>

theorem intPlusInt_min_min:
  "intPlusInt E 0x8000000000000000 0x8000000000000000 = mkResult Int64 0
   \<and> sint (0x8000000000000000 :: 64 word) + sint (0x8000000000000000 :: 64 word) < - (2 ^ 63)
   \<and> intPlusIntWithError 0x8000000000000000 0x8000000000000000
       = Inl (DataOutOfRange ''BIGINT'' ''+'')"
  by (simp add: intPlusInt_def intPlusIntWithError_def mkResult_def)

lemma uintTimesIntWithError_rejects:
  "sint v2 < 0 \<or> 2 ^ 63 \<le> unat v1 \<Longrightarrow>
     uintTimesIntWithError v1 v2 = Inl (DataOutOfRange ''BIGINT UNSIGNED'' ''*'')"
  by (auto simp: uintTimesIntWithError_def sint_neg_iff_large)

lemma uintTimesIntWithError_delegates:
  "\<not> sint v2 < 0 \<Longrightarrow> unat v1 < 2 ^ 63 \<Longrightarrow>
     uintTimesIntWithError v1 v2 = uintTimesUintWithError v1 v2"
  by (auto simp: uintTimesIntWithError_def sint_neg_iff_large)

text \<open>
  C9. \<open>uintTimesIntWithError\<close> rejects a negative signed operand and every unsigned
  operand from \<open>2^63\<close> on (lemma \<open>uintTimesIntWithError_rejects\<close>) and hands every other
  pair to \<open>uintTimesUintWithError\<close>. That function is not multiplication with overflow
  rejected: its test \<open>result < v2 || result < v1\<close> is the one of addition. It rejects
  5 * 0, which does not overflow, and it accepts \<open>(3 * 2^31) * (3 * 2^31)\<close>, which does,
  returning \<open>2^62\<close>.
\<close>

theorem uintTimesIntWithError_wrong_overflow_test:
  "uintTimesIntWithError 5 0 = Inl (DataOutOfRange ''BIGINT UNSIGNED'' ''*'')
   \<and> unat (5 :: 64 word) * unat (0 :: 64 word) < 2 ^ 64
   \<and> uintTimesIntWithError 0x180000000 0x180000000 = Inr (mkResult Uint64 0x4000000000000000)
   \<and> 2 ^ 64 \<le> unat (0x180000000 :: 64 word) * unat (0x180000000 :: 64 word)"
  by (simp add: uintTimesIntWithError_def uintTimesUintWithError_def mkResult_def)


subsection \<open>Operands that are no numbers\<close>

lemma makeNumeric_Int64 [simp]: "makeNumeric E (mkResult Int64 n) = mkResult Int64 n"
  by (simp add: makeNumeric_def mkResult_def IsNumber_def IsIntegral_def IsSigned_def)

lemma numeric_outcome_add: "numeric_outcome (addNumericWithError E a b)"
  by (auto simp: addNumericWithError_def intPlusIntWithError_def uintPlusIntWithError_def
      uintPlusUintWithError_def floatPlusAny_def mkResult_def invalidArithmetic_def Let_def
      split: prod.splits)

lemma numeric_outcome_sub: "numeric_outcome (subtractNumericWithError E a b)"
  by (auto simp: subtractNumericWithError_def intMinusIntWithError_def intMinusUintWithError_def
      uintMinusIntWithError_def uintMinusUintWithError_def uintPlusIntWithError_def
      floatMinusAny_def anyMinusFloat_def mkResult_def invalidArithmetic_def Let_def)

lemma numeric_outcome_mul: "numeric_outcome (multiplyNumericWithError E a b)"
  by (auto simp: multiplyNumericWithError_def intTimesIntWithError_def uintTimesIntWithError_def
      uintTimesUintWithError_def floatTimesAny_def mkResult_def invalidArithmetic_def Let_def
      split: prod.splits)

lemma numeric_outcome_div: "numeric_outcome (divideNumericWithError E a b)"
  by (auto simp: divideNumericWithError_def floatDivideAnyWithError_def mkResult_def
      invalidArithmetic_def Let_def)

text \<open>
  C10. A value that is no number and whose bytes parse neither as a base-10 \<open>int64\<close> nor as
  a \<open>float64\<close> becomes Int64 0 in \<open>makeNumeric\<close>. Hence each of the four operations treats
  such an operand, on either side, as the integer zero, and its outcome is a number or an
  arithmetic error (out of range, invalid arithmetic), never a parse error; adding such a
  value to Int64 5 gives Int64 5.
\<close>

theorem makeNumeric_unparsable:
  assumes "\<not> IsNumber (etyp v)" and "ParseInt (bytes v) = Inl e1"
    and "ParseFloat E (bytes v) = Inl e2"
  shows "makeNumeric E v = mkResult Int64 0
    \<and> addNumericWithError E v w = addNumericWithError E (mkResult Int64 0) w
    \<and> addNumericWithError E w v = addNumericWithError E w (mkResult Int64 0)
    \<and> subtractNumericWithError E v w = subtractNumericWithError E (mkResult Int64 0) w
    \<and> subtractNumericWithError E w v = subtractNumericWithError E w (mkResult Int64 0)
    \<and> multiplyNumericWithError E v w = multiplyNumericWithError E (mkResult Int64 0) w
    \<and> multiplyNumericWithError E w v = multiplyNumericWithError E w (mkResult Int64 0)
    \<and> divideNumericWithError E v w = divideNumericWithError E (mkResult Int64 0) w
    \<and> divideNumericWithError E w v = divideNumericWithError E w (mkResult Int64 0)
    \<and> numeric_outcome (addNumericWithError E v w) \<and> numeric_outcome (addNumericWithError E w v)
    \<and> numeric_outcome (subtractNumericWithError E v w)
    \<and> numeric_outcome (subtractNumericWithError E w v)
    \<and> numeric_outcome (multiplyNumericWithError E v w)
    \<and> numeric_outcome (multiplyNumericWithError E w v)
    \<and> numeric_outcome (divideNumericWithError E v w)
    \<and> numeric_outcome (divideNumericWithError E w v)
    \<and> addNumericWithError E v (mkResult Int64 5) = Inr (mkResult Int64 5)"
proof -
  have m: "makeNumeric E v = mkResult Int64 0"
    using assms by (simp add: makeNumeric_def)
  have five: "addNumericWithError E v (mkResult Int64 5) = Inr (mkResult Int64 5)"
    by (simp add: addNumericWithError_def makeNumericAndPrioritize_def m mkResult_def
        intPlusIntWithError_def makeNumeric_Int64 [unfolded mkResult_def])
  have eqs: "addNumericWithError E v w = addNumericWithError E (mkResult Int64 0) w"
    "addNumericWithError E w v = addNumericWithError E w (mkResult Int64 0)"
    "subtractNumericWithError E v w = subtractNumericWithError E (mkResult Int64 0) w"
    "subtractNumericWithError E w v = subtractNumericWithError E w (mkResult Int64 0)"
    "multiplyNumericWithError E v w = multiplyNumericWithError E (mkResult Int64 0) w"
    "multiplyNumericWithError E w v = multiplyNumericWithError E w (mkResult Int64 0)"
    "divideNumericWithError E v w = divideNumericWithError E (mkResult Int64 0) w"
    "divideNumericWithError E w v = divideNumericWithError E w (mkResult Int64 0)"
    by (simp_all add: m addNumericWithError_def subtractNumericWithError_def
        multiplyNumericWithError_def divideNumericWithError_def makeNumericAndPrioritize_def)
  show ?thesis
    using m five eqs
    by (simp only: numeric_outcome_add numeric_outcome_sub numeric_outcome_mul
        numeric_outcome_div simp_thms)
qed

theorem makeNumeric_unparsable_witness:
  "\<forall>E :: env. \<not> IsNumber (etyp \<lparr>etyp = VarChar, numval = 0, bytes = ''abc'', collation = 0\<rparr>)
     \<and> ParseInt (bytes \<lparr>etyp = VarChar, numval = 0, bytes = ''abc'', collation = 0\<rparr>) = Inl ErrSyntax
     \<and> makeNumeric (E\<lparr>ParseFloat := (ParseFloat E)(''abc'' := Inl ErrSyntax)\<rparr>)
          \<lparr>etyp = VarChar, numval = 0, bytes = ''abc'', collation = 0\<rparr> = mkResult Int64 0
     \<and> addNumericWithError (E\<lparr>ParseFloat := (ParseFloat E)(''abc'' := Inl ErrSyntax)\<rparr>)
          \<lparr>etyp = VarChar, numval = 0, bytes = ''abc'', collation = 0\<rparr> (mkResult Int64 5)
        = Inr (mkResult Int64 5)"
proof
  fix E :: env
  let ?E = "E\<lparr>ParseFloat := (ParseFloat E)(''abc'' := Inl ErrSyntax)\<rparr>"
  let ?v = "\<lparr>etyp = VarChar, numval = 0, bytes = ''abc'', collation = 0\<rparr>"
  have a: "\<not> IsNumber (etyp ?v)"
    by (simp add: IsNumber_def IsIntegral_def IsSigned_def IsUnsigned_def IsFloat_def)
  have b: "ParseInt (bytes ?v) = Inl ErrSyntax" by (simp add: ParseInt_def is_digit_def)
  have c: "ParseFloat ?E (bytes ?v) = Inl ErrSyntax" by simp
  note th = makeNumeric_unparsable [where E = ?E and v = ?v and w = "mkResult Int64 5"
      and ?e1.0 = ErrSyntax and ?e2.0 = ErrSyntax, OF a b c]
  from th have m: "makeNumeric ?E ?v = mkResult Int64 0" by (rule conjunct1)
  from th have f: "addNumericWithError ?E ?v (mkResult Int64 5) = Inr (mkResult Int64 5)"
    by blast
  from a b m f
  show "\<not> IsNumber (etyp ?v) \<and> ParseInt (bytes ?v) = Inl ErrSyntax
     \<and> makeNumeric ?E ?v = mkResult Int64 0
     \<and> addNumericWithError ?E ?v (mkResult Int64 5) = Inr (mkResult Int64 5)"
    by (intro conjI)
qed

subsection \<open>Division\<close>

lemma divideNumericWithError_eq:
  "divideNumericWithError E lv1 lv2 =
    (if known_numeric E lv1 then
       (if quotient_mismatch E (float_operand E lv1) (float_operand E lv2)
        then Inl (DataOutOfRange ''BIGINT'' ''/'')
        else Inr (mkResult Float64 (fdiv E (float_operand E lv1) (float_operand E lv2))))
     else Inl invalidArithmetic)"
  by (simp add: divideNumericWithError_def floatDivideAnyWithError_def known_numeric_def
      float_operand_def quotient_mismatch_def coerceToFloat_def Let_def)

lemma Divide_nonzero:
  assumes "\<not> IsNull (vtyp v1)" and "\<not> IsNull (vtyp v2)"
    and "ToFloat64 E v2 = (f, None)" and "\<not> feq E f float_zero"
    and "newEvalResult E v1 = Inr lv1" and "newEvalResult E v2 = Inr lv2"
  shows "Divide E v1 v2 =
    (case divideNumericWithError E lv1 lv2 of
       Inl e \<Rightarrow> Inl e
     | Inr r \<Rightarrow> Inr (toSQLValue E r (etyp r)))"
  using assms by (simp add: Divide_def binaryOp_def)

text \<open>
  C4. For two values that are not NULL: when the divisor converts to the float 0 without
  error, \<open>Divide\<close> returns NULL and no error. Otherwise, once both operands are read, a
  \<open>DataOutOfRange\<close> error is returned exactly when the dividend is of a type the division
  handles, the float divisor is below 1 and divisor times quotient differs from the
  dividend; and every value returned without error is the quotient, built as a Float64.
\<close>

theorem Divide_cases:
  assumes "\<not> IsNull (vtyp v1)" and "\<not> IsNull (vtyp v2)"
  shows "(ToFloat64 E v2 = (f, None) \<and> feq E f float_zero \<longrightarrow> Divide E v1 v2 = Inr NULL)
    \<and> (ToFloat64 E v2 = (f, None) \<and> \<not> feq E f float_zero
         \<and> newEvalResult E v1 = Inr lv1 \<and> newEvalResult E v2 = Inr lv2 \<longrightarrow>
        ((Divide E v1 v2 = Inl (DataOutOfRange ''BIGINT'' ''/''))
           = (known_numeric E lv1
              \<and> quotient_mismatch E (float_operand E lv1) (float_operand E lv2)))
        \<and> (\<forall>r. Divide E v1 v2 = Inr r \<longrightarrow>
              r = toSQLValue E
                    (mkResult Float64 (fdiv E (float_operand E lv1) (float_operand E lv2)))
                    Float64)
        \<and> (known_numeric E lv1
             \<and> \<not> quotient_mismatch E (float_operand E lv1) (float_operand E lv2) \<longrightarrow>
            Divide E v1 v2 = Inr (toSQLValue E
                    (mkResult Float64 (fdiv E (float_operand E lv1) (float_operand E lv2)))
                    Float64)))"
proof (intro conjI impI)
  assume "ToFloat64 E v2 = (f, None) \<and> feq E f float_zero"
  with assms show "Divide E v1 v2 = Inr NULL" by (simp add: Divide_def)
next
  assume pre: "ToFloat64 E v2 = (f, None) \<and> \<not> feq E f float_zero
         \<and> newEvalResult E v1 = Inr lv1 \<and> newEvalResult E v2 = Inr lv2"
  then have D: "Divide E v1 v2 =
    (case divideNumericWithError E lv1 lv2 of
       Inl e \<Rightarrow> Inl e
     | Inr r \<Rightarrow> Inr (toSQLValue E r (etyp r)))"
    using assms Divide_nonzero by blast
  show "(Divide E v1 v2 = Inl (DataOutOfRange ''BIGINT'' ''/''))
           = (known_numeric E lv1
              \<and> quotient_mismatch E (float_operand E lv1) (float_operand E lv2))"
    by (simp add: D divideNumericWithError_eq invalidArithmetic_def)
  show "\<forall>r. Divide E v1 v2 = Inr r \<longrightarrow>
              r = toSQLValue E
                    (mkResult Float64 (fdiv E (float_operand E lv1) (float_operand E lv2)))
                    Float64"
    by (simp add: D divideNumericWithError_eq mkResult_def)
  assume "known_numeric E lv1
             \<and> \<not> quotient_mismatch E (float_operand E lv1) (float_operand E lv2)"
  then show "Divide E v1 v2 = Inr (toSQLValue E
                    (mkResult Float64 (fdiv E (float_operand E lv1) (float_operand E lv2)))
                    Float64)"
    by (simp add: D divideNumericWithError_eq mkResult_def)
qed

theorem Divide_cases_witness:
  "\<forall>E :: env. \<not> IsNull (vtyp (int64_value ''6'')) \<and> \<not> IsNull (vtyp (int64_value ''3''))
     \<and> \<not> IsNull (vtyp (int64_value ''0''))
     \<and> Divide (divide_example_env E) (int64_value ''6'') (int64_value ''0'') = Inr NULL
     \<and> Divide (divide_example_env E) (int64_value ''6'') (int64_value ''3'')
         = Inr (toSQLValue E (mkResult Float64 0x4000000000000000) Float64)"
proof
  fix E :: env
  let ?E = "divide_example_env E"
  have n6: "\<not> IsNull (vtyp (int64_value ''6''))" by (simp add: int64_value_def IsNull_def)
  have n3: "\<not> IsNull (vtyp (int64_value ''3''))" by (simp add: int64_value_def IsNull_def)
  have n0: "\<not> IsNull (vtyp (int64_value ''0''))" by (simp add: int64_value_def IsNull_def)
  have pre0: "ToFloat64 ?E (int64_value ''0'') = (float_zero, None) \<and> feq ?E float_zero float_zero"
    by (simp add: divide_example_env_def int64_value_def)
  have z: "Divide ?E (int64_value ''6'') (int64_value ''0'') = Inr NULL"
    by (rule Divide_cases [where E = ?E and ?v1.0 = "int64_value ''6''"
          and ?v2.0 = "int64_value ''0''" and f = float_zero, OF n6 n0,
          THEN conjunct1, THEN mp, OF pre0])
  have pre1: "ToFloat64 ?E (int64_value ''3'') = (0x4008000000000000, None)
      \<and> \<not> feq ?E 0x4008000000000000 float_zero
      \<and> newEvalResult ?E (int64_value ''6'') = Inr (mkResult Int64 6)
      \<and> newEvalResult ?E (int64_value ''3'') = Inr (mkResult Int64 3)"
    by (simp add: divide_example_env_def int64_value_def float_zero_def)
  have o6: "float_operand ?E (mkResult Int64 6) = 0x4018000000000000"
    by (simp add: float_operand_def coerceToFloat_def mkResult_def divide_example_env_def
        del: makeNumeric_Int64 add: makeNumeric_Int64 [unfolded mkResult_def])
  have o3: "float_operand ?E (mkResult Int64 3) = 0x4008000000000000"
    by (simp add: float_operand_def coerceToFloat_def mkResult_def divide_example_env_def
        del: makeNumeric_Int64 add: makeNumeric_Int64 [unfolded mkResult_def])
  have d: "fdiv ?E 0x4018000000000000 0x4008000000000000 = 0x4000000000000000"
    by (simp add: divide_example_env_def)
  have kn: "known_numeric ?E (mkResult Int64 6)
      \<and> \<not> quotient_mismatch ?E (float_operand ?E (mkResult Int64 6))
            (float_operand ?E (mkResult Int64 3))"
    unfolding o6 o3
    by (simp add: known_numeric_def quotient_mismatch_def mkResult_def divide_example_env_def
        del: makeNumeric_Int64 add: makeNumeric_Int64 [unfolded mkResult_def])
  have t: "toSQLValue ?E = toSQLValue E" by (simp add: divide_example_env_def)
  have q: "Divide ?E (int64_value ''6'') (int64_value ''3'')
         = Inr (toSQLValue E (mkResult Float64 0x4000000000000000) Float64)"
    using Divide_cases [where E = ?E and ?v1.0 = "int64_value ''6''"
          and ?v2.0 = "int64_value ''3''" and f = "0x4008000000000000"
          and ?lv1.0 = "mkResult Int64 6" and ?lv2.0 = "mkResult Int64 3", OF n6 n3,
          THEN conjunct2, THEN mp, OF pre1, THEN conjunct2, THEN conjunct2, THEN mp, OF kn]
    unfolding o6 o3 d t .
  from n6 n3 n0 z q
  show "\<not> IsNull (vtyp (int64_value ''6'')) \<and> \<not> IsNull (vtyp (int64_value ''3''))
     \<and> \<not> IsNull (vtyp (int64_value ''0''))
     \<and> Divide ?E (int64_value ''6'') (int64_value ''0'') = Inr NULL
     \<and> Divide ?E (int64_value ''6'') (int64_value ''3'')
         = Inr (toSQLValue E (mkResult Float64 0x4000000000000000) Float64)"
    by (intro conjI)
qed

subsection \<open>Shard errors of a blocking execute\<close>

lemma fold_RecordWarning:
  "fold (\<lambda>err s'. RecordWarning vc s' err) errs s0 =
     s0\<lparr>warnings := warnings s0 @ map (warning_of vc) errs\<rparr>"
  by (induction errs arbitrary: s0) (simp_all add: RecordWarning_def warning_of_def)

lemma executeInternal_dispatch:
  assumes "route_params vc route bindVars = Inr (rss, bvs)" and "rss \<noteq> []"
    and "ExecuteMultiShard vc rss (getQueries (Query route) bvs) False False = (result, Some es)"
  shows "executeInternal vc route bindVars wantfields s =
    (if \<not> ScatterErrorsAsWarnings route \<or> length (filterOutNilErrors es) = length rss
     then ((None, Aggregate (filterOutNilErrors es)), s)
     else ((if OrderBy route = [] then (Some result, None)
            else (Some (fst (sort_rows route result)),
                  map_option Err (snd (sort_rows route result)))),
           s\<lparr>partialSuccessScatterQueries := partialSuccessScatterQueries s + 1,
             warnings := warnings s @ map (warning_of vc) (filterOutNilErrors es)\<rparr>))"
  using assms
  by (auto simp: executeInternal_def fold_RecordWarning Let_def split: prod.splits option.splits)

text \<open>
  C1 (as amended). A blocking execute has dispatched to the shards \<open>rss\<close> (not empty) and
  the cursor has reported \<open>k \<ge> 1\<close> shard errors. With \<open>ScatterErrorsAsWarnings\<close> set and
  fewer errors than shards, the session gains exactly one warning per error, in their
  order, the counter \<open>PartialSuccessScatterQueries\<close> goes up by one, and the call returns
  the cursor's result when there is no \<open>OrderBy\<close>, else what \<open>sort\<close> returns: a result and
  no error whenever \<open>OrderBy\<close> is empty or the sort meets no comparator error. With the flag
  unset, or as many errors as shards, the call returns no result and the aggregate of the
  errors, and leaves the session as it was.
\<close>

theorem executeInternal_shard_errors:
  assumes "route_params vc route bindVars = Inr (rss, bvs)" and "rss \<noteq> []"
    and "ExecuteMultiShard vc rss (getQueries (Query route) bvs) False False = (result, Some es)"
    and "filterOutNilErrors es \<noteq> []"
  shows "(ScatterErrorsAsWarnings route \<and> length (filterOutNilErrors es) < length rss \<longrightarrow>
      warnings (snd (executeInternal vc route bindVars wantfields s))
        = warnings s @ map (warning_of vc) (filterOutNilErrors es)
      \<and> partialSuccessScatterQueries (snd (executeInternal vc route bindVars wantfields s))
        = partialSuccessScatterQueries s + 1
      \<and> fst (executeInternal vc route bindVars wantfields s)
        = (if OrderBy route = [] then (Some result, None)
           else (Some (fst (sort_rows route result)),
                 map_option Err (snd (sort_rows route result))))
      \<and> (OrderBy route = [] \<or> snd (sort_rows route result) = None \<longrightarrow>
           (\<exists>r. fst (executeInternal vc route bindVars wantfields s) = (Some r, None))))
    \<and> (\<not> ScatterErrorsAsWarnings route \<or> length (filterOutNilErrors es) = length rss \<longrightarrow>
      executeInternal vc route bindVars wantfields s
        = ((None, Some (Aggregated (filterOutNilErrors es))), s))"
  using assms(4) by (auto simp: executeInternal_dispatch [OF assms(1-3)] Aggregate_def)

lemma example_params:
  "route_params (example_vcursor res errs) (example_route cs seaw) bv
     = Inr ([''s1'', ''s2''], [bv, bv])"
  by (simp add: route_params_def example_route_def example_vcursor_def paramsAllShards_def
      replicate_binds_def numeral_2_eq_2)

theorem executeInternal_shard_errors_witness:
  "route_params (example_vcursor example_result (Some [None, Some (OtherError ''s2 is down'')]))
       (example_route [] True) Map.empty = Inr ([''s1'', ''s2''], [Map.empty, Map.empty])
   \<and> filterOutNilErrors [None, Some (OtherError ''s2 is down'')] = [OtherError ''s2 is down'']
   \<and> fst (executeInternal
         (example_vcursor example_result (Some [None, Some (OtherError ''s2 is down'')]))
         (example_route [] True) Map.empty False example_session)
     = (Some example_result, None)
   \<and> warnings (snd (executeInternal
         (example_vcursor example_result (Some [None, Some (OtherError ''s2 is down'')]))
         (example_route [] True) Map.empty False example_session))
     = [\<lparr>qw_Code = 1105, qw_Message = ''shard error''\<rparr>]
   \<and> partialSuccessScatterQueries (snd (executeInternal
         (example_vcursor example_result (Some [None, Some (OtherError ''s2 is down'')]))
         (example_route [] True) Map.empty False example_session))
     = 1
   \<and> executeInternal (example_vcursor example_result (Some [None, Some (OtherError ''s2 is down'')]))
       (example_route [] False) Map.empty False example_session
     = ((None, Some (Aggregated [OtherError ''s2 is down''])), example_session)"
proof -
  let ?es = "[None, Some (OtherError ''s2 is down'')]"
  let ?vc = "example_vcursor example_result (Some ?es)"
  have f: "filterOutNilErrors ?es = [OtherError ''s2 is down'']"
    by (simp add: filterOutNilErrors_def)
  have ne: "filterOutNilErrors ?es \<noteq> []" by (simp add: f)
  have rs: "[''s1'', ''s2''] \<noteq> ([] :: ResolvedShard list)" by simp
  have ex: "\<And>r. ExecuteMultiShard ?vc [''s1'', ''s2''] (getQueries (Query r) [Map.empty, Map.empty])
      False False = (example_result, Some ?es)"
    by (simp add: example_vcursor_def)
  note t1 = executeInternal_shard_errors [OF
      example_params [of example_result "Some ?es" "[]" True Map.empty] rs ex ne,
      where wantfields = False and s = example_session]
  note t2 = executeInternal_shard_errors [OF
      example_params [of example_result "Some ?es" "[]" False Map.empty] rs ex ne,
      where wantfields = False and s = example_session]
  have a: "fst (executeInternal ?vc (example_route [] True) Map.empty False example_session)
       = (Some example_result, None)
     \<and> warnings (snd (executeInternal ?vc (example_route [] True) Map.empty False
           example_session)) = [\<lparr>qw_Code = 1105, qw_Message = ''shard error''\<rparr>]
     \<and> partialSuccessScatterQueries (snd (executeInternal ?vc (example_route [] True)
           Map.empty False example_session)) = 1"
    using t1
    by (simp add: f example_route_def example_session_def warning_of_def example_vcursor_def)
  have b: "executeInternal ?vc (example_route [] False) Map.empty False example_session
     = ((None, Some (Aggregated [OtherError ''s2 is down''])), example_session)"
    using t2
    by (simp add: f example_route_def)
  show ?thesis using example_params f a b by simp
qed

lemma sort_rows_failing:
  "sort_rows (example_route [failing_comparer] seaw) example_result =
     (\<lparr>Fields = [''c'', ''d''],
       Rows = [[int64_value ''1'', int64_value ''20''], [int64_value ''1'', int64_value ''10'']],
       RowsAffected = 0, InsertID = 0\<rparr>, Some (UnsupportedCollationError 0))"
  by (simp add: sort_rows_def sort_Slice_def example_result_def example_route_def
      less_closure_def swap_def failing_comparer_def numeral_2_eq_2)

text \<open>
  The claim as stated fails when the route sorts: one shard of two has failed, the flag is
  set, and the comparer fails on the rows of the partial result. \<open>executeInternal\<close> then
  returns the error of the comparer next to the result, and \<open>TryExecute\<close> the error alone.
\<close>

theorem executeInternal_sort_error_counterexample:
  "ScatterErrorsAsWarnings (example_route [failing_comparer] True)
   \<and> route_params (example_vcursor example_result (Some [None, Some (OtherError ''s2 is down'')]))
       (example_route [failing_comparer] True) Map.empty
       = Inr ([''s1'', ''s2''], [Map.empty, Map.empty])
   \<and> filterOutNilErrors [None, Some (OtherError ''s2 is down'')] = [OtherError ''s2 is down'']
   \<and> fst (executeInternal
         (example_vcursor example_result (Some [None, Some (OtherError ''s2 is down'')]))
         (example_route [failing_comparer] True) Map.empty False example_session)
     = (Some \<lparr>Fields = [''c'', ''d''],
               Rows = [[int64_value ''1'', int64_value ''20''],
                       [int64_value ''1'', int64_value ''10'']],
               RowsAffected = 0, InsertID = 0\<rparr>,
        Some (Err (UnsupportedCollationError 0)))
   \<and> fst (TryExecute
         (example_vcursor example_result (Some [None, Some (OtherError ''s2 is down'')]))
         (example_route [failing_comparer] True) Map.empty False example_session)
     = (None, Some (Err (UnsupportedCollationError 0)))"
proof -
  let ?es = "[None, Some (OtherError ''s2 is down'')]"
  let ?vc = "example_vcursor example_result (Some ?es)"
  let ?r = "example_route [failing_comparer] True"
  have f: "filterOutNilErrors ?es = [OtherError ''s2 is down'']"
    by (simp add: filterOutNilErrors_def)
  have rs: "[''s1'', ''s2''] \<noteq> ([] :: ResolvedShard list)" by simp
  have ex: "ExecuteMultiShard ?vc [''s1'', ''s2''] (getQueries (Query ?r) [Map.empty, Map.empty])
      False False = (example_result, Some ?es)"
    by (simp add: example_vcursor_def)
  have sw: "ScatterErrorsAsWarnings ?r" and ob: "OrderBy ?r \<noteq> []" and qt: "QueryTimeout ?r = 0"
    by (simp_all add: example_route_def)
  have e: "\<And>s. fst (executeInternal ?vc ?r Map.empty False s)
     = (Some \<lparr>Fields = [''c'', ''d''],
               Rows = [[int64_value ''1'', int64_value ''20''],
                       [int64_value ''1'', int64_value ''10'']],
               RowsAffected = 0, InsertID = 0\<rparr>,
        Some (Err (UnsupportedCollationError 0)))"
    by (simp add: executeInternal_dispatch [OF example_params rs ex] f sw ob sort_rows_failing)
  have t: "fst (TryExecute ?vc ?r Map.empty False example_session)
     = (None, Some (Err (UnsupportedCollationError 0)))"
    using e [of example_session]
    by (cases "executeInternal ?vc ?r Map.empty False example_session")
       (auto simp: TryExecute_def qt Let_def)
  show ?thesis using sw example_params f e t by simp
qed

subsection \<open>The blocking sort\<close>


lemma length_swap [simp]: "length (swap xs i j) = length xs"
  by (simp add: swap_def)









lemma less_closure_after_error:
  "snd st = Some e \<Longrightarrow> less_closure cs st i j = (True, Some e)"
  by (cases st) (simp add: less_closure_def)

lemma insert_down_keeps_error:
  "snd st = Some e \<Longrightarrow> snd (insert_down cs st j) = Some e"
  by (induction j arbitrary: st) (simp_all add: less_closure_after_error)

lemma sort_Slice_keeps_error:
  "snd (fold (\<lambda>i st'. insert_down cs st' i) js (rows, Some e)) = Some e"
proof -
  have "snd st = Some e \<Longrightarrow> snd (fold (\<lambda>i st'. insert_down cs st' i) js st) = Some e" for st
    by (induction js arbitrary: st) (simp_all add: insert_down_keeps_error)
  then show ?thesis by simp
qed






subsection \<open>The binds of an IN route\<close>

lemma add_to_shard_mset:
  "mset (concat (map snd (add_to_shard s (Some v) g))) = add_mset v (mset (concat (map snd g)))"
  by (induction g) auto

lemma add_to_shard_length:
  "length (map fst (add_to_shard s v g)) = length (map snd (add_to_shard s v g))"
  by simp

lemma fold_shards_mset:
  "mset (concat (map snd (fold (\<lambda>sh g'. add_to_shard sh (Some v) g') shs g)))
     = mset (concat (map snd g)) + replicate_mset (length shs) v"
  by (induction shs arbitrary: g) (simp_all add: add_to_shard_mset)

lemma group_fold_mset:
  assumes "\<forall>(v, d)\<in>set ps. v \<noteq> None \<and> length (resolve_destination ks d) = 1"
  shows "mset (concat (map snd
           (fold (\<lambda>(v, d) g. fold (\<lambda>sh g'. add_to_shard sh v g') (resolve_destination ks d) g) ps g)))
     = mset (concat (map snd g)) + mset (map (\<lambda>(v, d). the v) ps)"
  using assms
proof (induction ps arbitrary: g)
  case Nil
  then show ?case by simp
next
  case (Cons p ps)
  obtain v d where p: "p = (Some v, d)" using Cons.prems by (cases p) auto
  have one: "length (resolve_destination ks d) = 1" using Cons.prems p by simp
  have rest: "\<forall>(v, d)\<in>set ps. v \<noteq> None \<and> length (resolve_destination ks d) = 1"
    using Cons.prems by simp
  show ?case
    by (simp add: p Cons.IH [OF rest] fold_shards_mset one)
qed

lemma add_to_shard_mapped:
  assumes "keys_mapped ks ps g" and "(Some v, d) \<in> set ps" and "s \<in> set (resolve_destination ks d)"
  shows "keys_mapped ks ps (add_to_shard s (Some v) g)"
  using assms(1)
proof (induction g)
  case Nil
  with assms(2,3) show ?case by (auto simp: keys_mapped_def)
next
  case (Cons x g)
  obtain s' vs where x: "x = (s', vs)" by (cases x)
  have tl: "keys_mapped ks ps g" using Cons.prems by (simp add: keys_mapped_def)
  have hd: "\<forall>v\<in>set vs. \<exists>d. (Some v, d) \<in> set ps \<and> s' \<in> set (resolve_destination ks d)"
    using Cons.prems x by (simp add: keys_mapped_def)
  show ?case
  proof (cases "s = s'")
    case True
    with hd tl assms(2,3) x show ?thesis by (auto simp: keys_mapped_def)
  next
    case False
    with hd Cons.IH [OF tl] x show ?thesis by (auto simp: keys_mapped_def)
  qed
qed

lemma fold_shards_mapped:
  assumes "(Some v, d) \<in> set ps" and "set shs \<subseteq> set (resolve_destination ks d)"
  shows "keys_mapped ks ps g \<Longrightarrow> keys_mapped ks ps (fold (\<lambda>sh g'. add_to_shard sh (Some v) g') shs g)"
  using assms(2)
proof (induction shs arbitrary: g)
  case Nil
  then show ?case by simp
next
  case (Cons sh shs)
  have "keys_mapped ks ps (add_to_shard sh (Some v) g)"
    using add_to_shard_mapped [OF Cons.prems(1) assms(1)] Cons.prems(2) by simp
  then show ?case using Cons.IH Cons.prems(2) by simp
qed

lemma group_fold_mapped:
  assumes "set qs \<subseteq> set ps" and "\<forall>(v, d)\<in>set qs. v \<noteq> None"
  shows "keys_mapped ks ps g \<Longrightarrow> keys_mapped ks ps
    (fold (\<lambda>(v, d) g. fold (\<lambda>sh g'. add_to_shard sh v g') (resolve_destination ks d) g) qs g)"
  using assms
proof (induction qs arbitrary: g)
  case Nil
  then show ?case by simp
next
  case (Cons q qs)
  obtain v d where q: "q = (Some v, d)" using Cons.prems(3) by (cases q) auto
  have mem: "(Some v, d) \<in> set ps" using Cons.prems(2) q by simp
  have step: "keys_mapped ks ps
      (fold (\<lambda>sh g'. add_to_shard sh (Some v) g') (resolve_destination ks d) g)"
    using fold_shards_mapped [OF mem _ Cons.prems(1)] by simp
  have "set qs \<subseteq> set ps" "\<forall>(v, d)\<in>set qs. v \<noteq> None" using Cons.prems(2,3) by simp_all
  from Cons.IH [OF step this] show ?case by (simp add: q)
qed

lemma zip_keys_back:
  "length dests = length keys \<Longrightarrow> map (\<lambda>(v, d). the v) (zip (map Some keys) dests) = keys"
  by (induction keys dests rule: list_induct2') simp_all

text \<open>
  C3 (as amended). For an IN route whose value resolves to the list \<open>keys\<close>, whose vindex
  maps it to one destination per key, and whose cursor resolves destinations as the spec
  describes: the parameters are the resolved shards with, per shard, the base binds plus the
  one bind \<open>ListVarName\<close>, a tuple; every key in the tuple of a shard is a key whose
  destination resolves to that shard; and when every destination resolves to exactly one
  shard, the tuples together hold the keys of the list, each as often as the list does.
\<close>

theorem paramsSelectIn_shard_binds:
  assumes rl: "Value_ResolveList route bindVars = Inr keys"
    and vm: "Vindex_Map route keys = Inr dests"
    and len: "length dests = length keys"
    and rd: "ResolveDestinations vc = ResolveDestinations_spec ks"
  shows "\<exists>rss vals.
      paramsSelectIn vc route bindVars
        = Inr (rss, map (\<lambda>vs. bindVars(ListVarName \<mapsto> tuple_bind vs)) vals)
      \<and> length vals = length rss
      \<and> (\<forall>i<length rss. \<forall>v\<in>set (vals ! i).
            \<exists>j<length keys. keys ! j = v \<and> rss ! i \<in> set (resolve_destination ks (dests ! j)))
      \<and> ((\<forall>d\<in>set dests. length (resolve_destination ks d) = 1) \<longrightarrow>
            mset (concat vals) = mset keys)"
proof -
  let ?ps = "zip (map Some keys) dests"
  let ?g = "group_by_shard ks ?ps"
  have some: "\<forall>(v, d)\<in>set ?ps. v \<noteq> None"
    by (auto simp: in_set_zip)
  have p: "paramsSelectIn vc route bindVars
        = Inr (map fst ?g, map (\<lambda>vs. bindVars(ListVarName \<mapsto> tuple_bind vs)) (map snd ?g))"
    by (simp add: paramsSelectIn_def resolveShards_def rl vm rd ResolveDestinations_spec_def
        shardVars_def tuple_bind_def Let_def)
  have km: "keys_mapped ks ?ps ?g"
    unfolding group_by_shard_def
    by (rule group_fold_mapped [OF subset_refl some]) (simp add: keys_mapped_def)
  have mem: "\<forall>i<length (map fst ?g). \<forall>v\<in>set (map snd ?g ! i).
            \<exists>j<length keys. keys ! j = v
              \<and> map fst ?g ! i \<in> set (resolve_destination ks (dests ! j))"
  proof (intro allI impI ballI)
    fix i v
    assume i: "i < length (map fst ?g)" and v: "v \<in> set (map snd ?g ! i)"
    have "?g ! i \<in> set ?g" using i by simp
    moreover have "?g ! i = (map fst ?g ! i, map snd ?g ! i)" using i by simp
    ultimately obtain d where d: "(Some v, d) \<in> set ?ps"
        "map fst ?g ! i \<in> set (resolve_destination ks d)"
      using km v unfolding keys_mapped_def by fastforce
    from d(1) obtain j where "j < length ?ps" "?ps ! j = (Some v, d)"
      by (auto simp: in_set_conv_nth)
    then have "j < length keys" "keys ! j = v" "dests ! j = d"
      using len by auto
    with d(2) show "\<exists>j<length keys. keys ! j = v
        \<and> map fst ?g ! i \<in> set (resolve_destination ks (dests ! j))"
      by blast
  qed
  have ms: "(\<forall>d\<in>set dests. length (resolve_destination ks d) = 1) \<longrightarrow>
            mset (concat (map snd ?g)) = mset keys"
  proof
    assume one: "\<forall>d\<in>set dests. length (resolve_destination ks d) = 1"
    have "\<forall>(v, d)\<in>set ?ps. v \<noteq> None \<and> length (resolve_destination ks d) = 1"
      using some one by (auto dest: set_zip_rightD)
    from group_fold_mset [OF this, of "[]"]
    show "mset (concat (map snd ?g)) = mset keys"
      by (simp add: group_by_shard_def zip_keys_back [OF len])
  qed
  from p mem ms show ?thesis
    by (intro exI [of _ "map fst ?g"] exI [of _ "map snd ?g"]) simp
qed

lemma example_in_eval:
  "paramsSelectIn example_in_vcursor
      (example_in_route [DestinationKeyspaceID ''a'', DestinationKeyspaceID ''b'',
         DestinationKeyspaceID ''a'']) Map.empty
     = Inr ([''s1'', ''s2''],
            [Map.empty(ListVarName \<mapsto> tuple_bind [int64_value ''1'', int64_value ''3'']),
             Map.empty(ListVarName \<mapsto> tuple_bind [int64_value ''2''])])"
  by (simp add: paramsSelectIn_def resolveShards_def example_in_route_def example_in_vcursor_def
      ResolveDestinations_spec_def group_by_shard_def resolve_destination_def
      example_keyspace_def shardVars_def tuple_bind_def Let_def)

theorem paramsSelectIn_shard_binds_witness:
  "Value_ResolveList (example_in_route [DestinationKeyspaceID ''a'', DestinationKeyspaceID ''b'',
         DestinationKeyspaceID ''a'']) Map.empty
     = Inr [int64_value ''1'', int64_value ''2'', int64_value ''3'']
   \<and> resolve_destination example_keyspace (DestinationKeyspaceID ''a'') = [''s1'']
   \<and> resolve_destination example_keyspace (DestinationKeyspaceID ''b'') = [''s2'']
   \<and> paramsSelectIn example_in_vcursor
      (example_in_route [DestinationKeyspaceID ''a'', DestinationKeyspaceID ''b'',
         DestinationKeyspaceID ''a'']) Map.empty
     = Inr ([''s1'', ''s2''],
            [Map.empty(ListVarName \<mapsto> tuple_bind [int64_value ''1'', int64_value ''3'']),
             Map.empty(ListVarName \<mapsto> tuple_bind [int64_value ''2''])])
   \<and> (\<exists>rss vals. paramsSelectIn example_in_vcursor
      (example_in_route [DestinationKeyspaceID ''a'', DestinationKeyspaceID ''b'',
         DestinationKeyspaceID ''a'']) Map.empty
       = Inr (rss, map (\<lambda>vs. Map.empty(ListVarName \<mapsto> tuple_bind vs)) vals)
      \<and> mset (concat vals) = mset [int64_value ''1'', int64_value ''2'', int64_value ''3''])"
proof -
  let ?ds = "[DestinationKeyspaceID ''a'', DestinationKeyspaceID ''b'', DestinationKeyspaceID ''a'']"
  let ?keys = "[int64_value ''1'', int64_value ''2'', int64_value ''3'']"
  have rl: "Value_ResolveList (example_in_route ?ds) Map.empty = Inr ?keys"
    by (simp add: example_in_route_def)
  have vm: "Vindex_Map (example_in_route ?ds) ?keys = Inr ?ds"
    by (simp add: example_in_route_def)
  have len: "length ?ds = length ?keys" by simp
  have rd: "ResolveDestinations example_in_vcursor = ResolveDestinations_spec example_keyspace"
    by (simp add: example_in_vcursor_def)
  have ra: "resolve_destination example_keyspace (DestinationKeyspaceID ''a'') = [''s1'']"
    and rb: "resolve_destination example_keyspace (DestinationKeyspaceID ''b'') = [''s2'']"
    by (simp_all add: resolve_destination_def example_keyspace_def)
  have one: "\<forall>d\<in>set ?ds. length (resolve_destination example_keyspace d) = 1"
    by (simp add: ra rb)
  from paramsSelectIn_shard_binds [OF rl vm len rd] one
  have ex: "\<exists>rss vals. paramsSelectIn example_in_vcursor (example_in_route ?ds) Map.empty
       = Inr (rss, map (\<lambda>vs. Map.empty(ListVarName \<mapsto> tuple_bind vs)) vals)
      \<and> mset (concat vals) = mset ?keys"
    by blast
  from rl ra rb example_in_eval ex show ?thesis by (intro conjI)
qed

text \<open>
  The claim as stated fails when the vindex maps a key to no shard: the key 2, mapped to
  \<open>DestinationNone\<close>, is in the tuple of no shard, and the tuples do not add up to the list.
\<close>

theorem paramsSelectIn_key_dropped_counterexample:
  "Value_ResolveList (example_in_route [DestinationKeyspaceID ''a'', DestinationNone,
         DestinationKeyspaceID ''a'']) Map.empty
     = Inr [int64_value ''1'', int64_value ''2'', int64_value ''3'']
   \<and> Vindex_Map (example_in_route [DestinationKeyspaceID ''a'', DestinationNone,
         DestinationKeyspaceID ''a''])
        [int64_value ''1'', int64_value ''2'', int64_value ''3'']
     = Inr [DestinationKeyspaceID ''a'', DestinationNone, DestinationKeyspaceID ''a'']
   \<and> paramsSelectIn example_in_vcursor
      (example_in_route [DestinationKeyspaceID ''a'', DestinationNone,
         DestinationKeyspaceID ''a'']) Map.empty
     = Inr ([''s1''],
            [Map.empty(ListVarName \<mapsto> tuple_bind [int64_value ''1'', int64_value ''3''])])
   \<and> mset (concat [[int64_value ''1'', int64_value ''3'']])
       \<noteq> mset [int64_value ''1'', int64_value ''2'', int64_value ''3'']"
  by (simp add: paramsSelectIn_def resolveShards_def example_in_route_def example_in_vcursor_def
      ResolveDestinations_spec_def group_by_shard_def resolve_destination_def
      example_keyspace_def shardVars_def tuple_bind_def Let_def int64_value_def)

end
